theory Spec2Isabelle
  imports
    Complex_Main
    "HOL-Library.Word"
    "HOL-Library.List_Lexorder"
    "HOL-Library.Char_ord"
    "HOL-Library.Product_Lexorder"
begin

section \<open>The event-sourced inventory ledger (src/back)\<close>

text \<open>
  A shallow embedding of the ledger core of the repository: \<^verbatim>\<open>transaction.h\<close>,
  \<^verbatim>\<open>persistence.cpp\<close> (WAL writer, reader, recovery, integrity validation) and
  \<^verbatim>\<open>memory_database.cpp\<close> (the Store with its per-tenant Ledgers and the derived views).

  Conventions of the embedding.
  \<^item> A C++ \<^verbatim>\<open>int\<close> is a \<open>32 word\<close>, read as a signed number with \<open>sint\<close>; \<open>+\<close> and
    \<open>-\<close> wrap around.
  \<^item> A C++ \<^verbatim>\<open>double\<close> is a rational number. An arithmetic operation on doubles returns
    the exact result rounded by a function \<open>rnd\<close>, which the functions that compute with
    doubles take as their first argument: for the code it is the rounding of the binary64
    format to the nearest value, ties to even, and the theorems hold for every \<open>rnd\<close>.
    Converting an \<^verbatim>\<open>int\<close> to \<^verbatim>\<open>double\<close> is exact. Infinities and NaN are outside the
    model.
  \<^item> A \<^verbatim>\<open>std::string\<close> is a \<open>string\<close>; \<open><\<close> on strings is the lexicographic order on
    bytes, as \<^verbatim>\<open>std::string::compare\<close>.
  \<^item> Logging, metrics and timers have no effect on the modelled state and are left out.
  \<^item> Memory exhaustion (\<^verbatim>\<open>std::bad_alloc\<close>) is not modelled, nor are errors of the file
    system other than the ones named below (a data directory or WAL file that cannot be
    opened at construction, a failing write to the WAL stream, and a failing query of the
    WAL file's size).
\<close>

type_synonym c_int = "32 word"
type_synonym double = rat

subsection \<open>The arithmetic of \<^verbatim>\<open>double\<close>\<close>

text \<open>
  The operations \<^verbatim>\<open>*\<close>, \<^verbatim>\<open>+\<close> and \<^verbatim>\<open>/\<close> on doubles, each with one rounding of the
  exact result, and the conversion of an \<^verbatim>\<open>int\<close> operand to \<^verbatim>\<open>double\<close>.
\<close>

definition fmul :: "(rat \<Rightarrow> rat) \<Rightarrow> double \<Rightarrow> double \<Rightarrow> double" where
  "fmul rnd x y = rnd (x * y)"

definition fadd :: "(rat \<Rightarrow> rat) \<Rightarrow> double \<Rightarrow> double \<Rightarrow> double" where
  "fadd rnd x y = rnd (x + y)"

definition fdiv :: "(rat \<Rightarrow> rat) \<Rightarrow> double \<Rightarrow> double \<Rightarrow> double" where
  "fdiv rnd x y = rnd (x / y)"

definition int_to_double :: "c_int \<Rightarrow> double" where
  "int_to_double n = of_int (sint n)"

subsection \<open>The C++ library primitives the WAL format relies on\<close>

text \<open>\<^verbatim>\<open>operator<<(int)\<close>: decimal digits, a leading minus sign for a negative number.\<close>

definition digit_char :: "nat \<Rightarrow> char" where
  "digit_char d = ''0123456789'' ! d"

fun show_nat :: "nat \<Rightarrow> string" where
  "show_nat n = (if n < 10 then [digit_char n] else show_nat (n div 10) @ [digit_char (n mod 10)])"

declare show_nat.simps [simp del]

definition show_int :: "int \<Rightarrow> string" where
  "show_int i = (if i < 0 then CHR ''-'' # show_nat (nat (- i)) else show_nat (nat i))"

definition ostream_int :: "c_int \<Rightarrow> string" where
  "ostream_int q = show_int (sint q)"

text \<open>
  \<^verbatim>\<open>std::fixed << std::setprecision(2)\<close>: the value rounded to hundredths (ties to even, as the
  C library does on the exact value), printed with exactly two fractional digits.
\<close>

definition round_half_even :: "rat \<Rightarrow> int" where
  "round_half_even x =
     (let f = \<lfloor>x\<rfloor>; d = x - of_int f
      in if d < 1 / 2 then f else if 1 / 2 < d then f + 1 else if even f then f else f + 1)"

definition ostream_fixed2 :: "double \<Rightarrow> string" where
  "ostream_fixed2 x =
     (let n = nat (round_half_even (\<bar>x\<bar> * 100))
      in (if x < 0 then ''-'' else '''') @ show_nat (n div 100) @ ''.'' @
         [digit_char (n mod 100 div 10), digit_char (n mod 10)])"

text \<open>
  \<^verbatim>\<open>std::stoi\<close> and \<^verbatim>\<open>std::stod\<close>: leading white space is skipped, an optional sign is
  read, then the longest prefix that is a number; what follows the number is ignored.
  Both throw \<^verbatim>\<open>std::invalid_argument\<close> when there is no number, and \<^verbatim>\<open>stoi\<close> throws
  \<^verbatim>\<open>std::out_of_range\<close> when the value does not fit an \<^verbatim>\<open>int\<close>. The model of \<^verbatim>\<open>stod\<close>
  reads decimal notation with an optional exponent and returns the number read, whatever
  its size. Outside the model are: hexadecimal notation (of which the model reads the
  leading 0), the words that denote infinities and NaN (in which the model finds no
  number), and numbers outside the range of \<^verbatim>\<open>double\<close> (for which the library function
  throws \<^verbatim>\<open>std::out_of_range\<close>, and the model does not).
\<close>

datatype conv_error = invalid_argument | out_of_range

definition isspace :: "char \<Rightarrow> bool" where
  "isspace c = (c \<in> set [CHR '' '', CHR 0x09, CHR 0x0A, CHR 0x0B, CHR 0x0C, CHR 0x0D])"

definition isdigit :: "char \<Rightarrow> bool" where
  "isdigit c = (48 \<le> (of_char c :: nat) \<and> (of_char c :: nat) \<le> 57)"

definition digit_val :: "char \<Rightarrow> nat" where
  "digit_val c = of_char c - 48"

definition digits_val :: "string \<Rightarrow> nat" where
  "digits_val ds = foldl (\<lambda>a c. 10 * a + digit_val c) 0 ds"

text \<open>The optional sign: whether it is a minus, and the text after it.\<close>

fun read_sign :: "string \<Rightarrow> bool \<times> string" where
  "read_sign (c # cs) =
     (if c = CHR ''-'' then (True, cs) else if c = CHR ''+'' then (False, cs) else (False, c # cs))"
| "read_sign [] = (False, [])"

definition stoi :: "string \<Rightarrow> conv_error + c_int" where
  "stoi s =
     (let (neg, t) = read_sign (dropWhile isspace s);
          ds = takeWhile isdigit t;
          v = (if neg then - int (digits_val ds) else int (digits_val ds))
      in if ds = [] then Inl invalid_argument
         else if v < - (2 ^ 31) \<or> 2 ^ 31 - 1 < v then Inl out_of_range
         else Inr (word_of_int v))"

text \<open>The exponent part of a decimal number: read only when at least one digit follows.\<close>

definition read_exponent :: "string \<Rightarrow> int" where
  "read_exponent t =
     (case t of
        [] \<Rightarrow> 0
      | c # cs \<Rightarrow>
          if c = CHR ''e'' \<or> c = CHR ''E'' then
            (let (neg, u) = read_sign cs; ds = takeWhile isdigit u
             in if ds = [] then 0
                else if neg then - int (digits_val ds) else int (digits_val ds))
          else 0)"

definition stod :: "string \<Rightarrow> conv_error + double" where
  "stod s =
     (let (neg, t) = read_sign (dropWhile isspace s);
          ip = takeWhile isdigit t;
          t1 = dropWhile isdigit t;
          fp = (case t1 of [] \<Rightarrow> [] | c # cs \<Rightarrow> if c = CHR ''.'' then takeWhile isdigit cs else []);
          t2 = (case t1 of [] \<Rightarrow> [] | c # cs \<Rightarrow> if c = CHR ''.'' then dropWhile isdigit cs else t1);
          m = of_nat (digits_val (ip @ fp)) / 10 ^ length fp;
          e = read_exponent t2;
          v = (if 0 \<le> e then m * 10 ^ nat e else m / 10 ^ nat (- e))
      in if ip = [] \<and> fp = [] then Inl invalid_argument
         else Inr (if neg then - v else v))"

text \<open>
  The loop \<^verbatim>\<open>while (std::getline(stream, token, delim)) fields.push_back(token)\<close>:
  a token ends at the delimiter or at the end of the text, and at the end of the text a
  token is produced only when it holds at least one character. So a text that ends with
  the delimiter yields no empty last token. The first argument is the token read so far.
\<close>

fun getline_loop :: "char \<Rightarrow> string \<Rightarrow> string \<Rightarrow> string list" where
  "getline_loop delim tok [] = (if tok = [] then [] else [tok])"
| "getline_loop delim tok (c # cs) =
     (if c = delim then tok # getline_loop delim [] cs else getline_loop delim (tok @ [c]) cs)"

definition getline_all :: "char \<Rightarrow> string \<Rightarrow> string list" where
  "getline_all delim s = getline_loop delim [] s"

subsection \<open>transaction.h\<close>

record TransactionRecord =
  trans_id :: string
  item_id :: string
  item_name :: string
  type :: string
  quantity :: c_int
  timestamp :: string
  manager_id :: string
  "note" :: string
  category :: string
  model :: string
  unit :: string
  unit_price :: double
  partner_id :: string
  partner_name :: string
  warehouse_id :: string
  document_no :: string

text \<open>The default constructor: empty strings, \<^verbatim>\<open>quantity(0), unit_price(0.0)\<close>.\<close>

definition TransactionRecord_new :: TransactionRecord where
  "TransactionRecord_new =
     \<lparr>trans_id = [], item_id = [], item_name = [], type = [], quantity = 0, timestamp = [],
      manager_id = [], note = [], category = [], model = [], unit = [], unit_price = 0,
      partner_id = [], partner_name = [], warehouse_id = [], document_no = []\<rparr>"

definition getTotalAmount :: "(rat \<Rightarrow> rat) \<Rightarrow> TransactionRecord \<Rightarrow> double" where
  "getTotalAmount rnd tr = fmul rnd (int_to_double (quantity tr)) (unit_price tr)"

definition isInbound :: "TransactionRecord \<Rightarrow> bool" where
  "isInbound tr = (type tr = ''in'')"

subsection \<open>persistence.cpp: the clock\<close>

text \<open>
  A reading of the system clock as \<^verbatim>\<open>std::gmtime\<close> breaks it down (\<open>tm_year\<close> counts from
  1900, \<open>tm_mon\<close> from 0), with the milliseconds of the second.
  \<^verbatim>\<open>getCurrentTimestamp\<close> prints it as \<^verbatim>\<open>%Y-%m-%dT%H:%M:%S\<close>, a dot, the milliseconds
  with \<^verbatim>\<open>setfill('0')\<close> and \<^verbatim>\<open>setw(3)\<close>, and \<^verbatim>\<open>Z\<close>.
\<close>

record sys_time =
  tm_year :: nat
  tm_mon :: nat
  tm_mday :: nat
  tm_hour :: nat
  tm_min :: nat
  tm_sec :: nat
  millis :: nat

definition setw0 :: "nat \<Rightarrow> string \<Rightarrow> string" where
  "setw0 w s = replicate (w - length s) CHR ''0'' @ s"

definition getCurrentTimestamp :: "sys_time \<Rightarrow> string" where
  "getCurrentTimestamp t =
     show_nat (1900 + tm_year t) @ ''-'' @ setw0 2 (show_nat (tm_mon t + 1)) @ ''-'' @
     setw0 2 (show_nat (tm_mday t)) @ ''T'' @ setw0 2 (show_nat (tm_hour t)) @ '':'' @
     setw0 2 (show_nat (tm_min t)) @ '':'' @ setw0 2 (show_nat (tm_sec t)) @ ''.'' @
     setw0 3 (show_nat (millis t)) @ ''Z''"

subsection \<open>persistence.cpp: the WAL line format\<close>

text \<open>
  \<^verbatim>\<open>serializeTransaction\<close>. The first field is \<^verbatim>\<open>getCurrentTimestamp()\<close>; the argument
  \<open>now\<close> is the reading of the clock at the call.
\<close>

definition serializeTransaction :: "sys_time \<Rightarrow> string \<Rightarrow> TransactionRecord \<Rightarrow> string" where
  "serializeTransaction now mid tr =
     getCurrentTimestamp now @ ''|'' @ mid @ ''|'' @ trans_id tr @ ''|'' @ item_id tr @ ''|'' @
     item_name tr @ ''|'' @ type tr @ ''|'' @ ostream_int (quantity tr) @ ''|'' @
     ostream_fixed2 (unit_price tr) @ ''|'' @ category tr @ ''|'' @ model tr @ ''|'' @
     unit tr @ ''|'' @ partner_id tr @ ''|'' @ partner_name tr @ ''|'' @
     warehouse_id tr @ ''|'' @ document_no tr @ ''|'' @ note tr"

text \<open>
  \<^verbatim>\<open>deserializeTransaction(line, manager_id, trans)\<close> writes its two out-parameters and
  returns a flag. The model returns \<open>None\<close> for \<^verbatim>\<open>false\<close> (the field count is not 16, or
  \<^verbatim>\<open>stoi\<close>/\<^verbatim>\<open>stod\<close> threw and the exception was caught) and otherwise the pair of
  out-parameters. The argument \<open>trans\<close> is the caller's record as it was before the call:
  its \<open>manager_id\<close> field is the only one the function does not assign.
\<close>

definition deserializeTransaction ::
  "string \<Rightarrow> TransactionRecord \<Rightarrow> (string \<times> TransactionRecord) option" where
  "deserializeTransaction line tr =
     (let fields = getline_all CHR ''|'' line
      in if length fields \<noteq> 16 then None
         else case stoi (fields ! 6) of
           Inl e \<Rightarrow> None
         | Inr q \<Rightarrow>
            (case stod (fields ! 7) of
               Inl e \<Rightarrow> None
             | Inr p \<Rightarrow>
                 Some (fields ! 1,
                   tr\<lparr>trans_id := fields ! 2, item_id := fields ! 3, item_name := fields ! 4,
                     type := fields ! 5, quantity := q, unit_price := p, category := fields ! 8,
                     model := fields ! 9, unit := fields ! 10, partner_id := fields ! 11,
                     partner_name := fields ! 12, warehouse_id := fields ! 13,
                     document_no := fields ! 14, note := fields ! 15,
                     timestamp := fields ! 0\<rparr>)))"

subsection \<open>persistence.cpp: the WAL writer\<close>

text \<open>
  The state of a \<^verbatim>\<open>PersistenceManager\<close>: whether \<^verbatim>\<open>wal_stream_\<close> is open, the regular
  files of \<^verbatim>\<open>data_dir_\<close> (file name and content, file names being distinct, the WAL
  stream's buffer counted as written), and \<^verbatim>\<open>wal_size_limit_\<close>. The stream was opened on
  \<^verbatim>\<open>current.wal\<close> in append mode. Isabelle names cannot end with an underscore, so the
  members \<^verbatim>\<open>wal_size_limit_\<close>, \<^verbatim>\<open>managers_\<close>, \<^verbatim>\<open>persistence_\<close> and
  \<^verbatim>\<open>persistence_enabled_\<close> are written without it.
\<close>

record PersistenceManager =
  wal_stream_open :: bool
  data_dir_files :: "(string \<times> string) list"
  wal_size_limit :: nat

text \<open>
  What a call of \<^verbatim>\<open>writeToWAL\<close> gets from its environment: the reading of the clock;
  whether the write to the stream fails, and then how many bytes of it reached the file
  (\<open>None\<close> when the write goes through); whether the file-system query of
  \<^verbatim>\<open>shouldCreateSnapshot\<close> throws \<^verbatim>\<open>std::filesystem::filesystem_error\<close>; and the effect
  of \<^verbatim>\<open>rotateWALFile\<close>, which \<^verbatim>\<open>persistence.h\<close> declares and whose body is not part of
  the sources. In the source a stream that failed once stays failed; the model lets the
  environment decide at every write, which includes that behaviour.
\<close>

record io_env =
  now :: sys_time
  write_error :: "nat option"
  fs_error :: bool
  rotateWALFile :: "PersistenceManager \<Rightarrow> PersistenceManager"

fun append_to_file :: "string \<Rightarrow> string \<Rightarrow> (string \<times> string) list \<Rightarrow> (string \<times> string) list" where
  "append_to_file name text [] = [(name, text)]"
| "append_to_file name text ((n, c) # files) =
     (if n = name then (n, c @ text) # files else (n, c) # append_to_file name text files)"

definition file_size :: "string \<Rightarrow> (string \<times> string) list \<Rightarrow> nat option" where
  "file_size name files = map_option length (map_of files name)"

definition shouldCreateSnapshot :: "PersistenceManager \<Rightarrow> bool" where
  "shouldCreateSnapshot pm =
     (case file_size ''current.wal'' (data_dir_files pm) of
        None \<Rightarrow> False
      | Some sz \<Rightarrow> wal_size_limit pm < sz)"

text \<open>
  \<^verbatim>\<open>writeToWAL\<close>: the line and \<^verbatim>\<open>std::endl\<close> go to the stream, which is flushed. The
  state of the stream is not tested after the write, so a write that fails does not make
  the function return \<^verbatim>\<open>false\<close>. An exception after the write leaves what was written
  in the file and makes the function return \<^verbatim>\<open>false\<close>.
\<close>

definition writeToWAL ::
  "io_env \<Rightarrow> string \<Rightarrow> TransactionRecord \<Rightarrow> PersistenceManager \<Rightarrow> bool \<times> PersistenceManager" where
  "writeToWAL env mid tr pm =
     (if \<not> wal_stream_open pm then (False, pm)
      else
        let line = serializeTransaction (now env) mid tr;
            written = (case write_error env of
                         None \<Rightarrow> line @ [CHR 0x0A]
                       | Some k \<Rightarrow> take k (line @ [CHR 0x0A]));
            pm1 = pm\<lparr>data_dir_files :=
                     append_to_file ''current.wal'' written (data_dir_files pm)\<rparr>
        in if fs_error env then (False, pm1)
           else if shouldCreateSnapshot pm1 then (True, rotateWALFile env pm1)
           else (True, pm1))"

subsection \<open>persistence.cpp: recovery and integrity validation\<close>

definition ends_with :: "string \<Rightarrow> string \<Rightarrow> bool" where
  "ends_with s suffix =
     (length suffix \<le> length s \<and> drop (length s - length suffix) s = suffix)"

definition getWALFiles :: "PersistenceManager \<Rightarrow> string list" where
  "getWALFiles pm =
     sort (filter (\<lambda>filename. ends_with filename ''.wal'' \<or> ends_with filename ''.log'')
             (map fst (data_dir_files pm)))"

text \<open>
  A \<^verbatim>\<open>std::unordered_map<std::string, std::vector<TransactionRecord>>\<close> is an association
  list with one entry per key, in the order in which the keys were first inserted.
  \<open>push_back_for\<close> is \<^verbatim>\<open>data[manager_id].push_back(trans)\<close>. The order in which the
  source iterates over such a map is unspecified; what the model computes by iterating (a
  truth value, the tenant map of the Store) does not depend on it.
\<close>

type_synonym recovered = "(string \<times> TransactionRecord list) list"

fun push_back_for :: "string \<Rightarrow> TransactionRecord \<Rightarrow> recovered \<Rightarrow> recovered" where
  "push_back_for mid tr [] = [(mid, [tr])]"
| "push_back_for mid tr ((k, v) # data) =
     (if k = mid then (k, v @ [tr]) # data else (k, v) # push_back_for mid tr data)"

text \<open>The inner loop of \<^verbatim>\<open>recoverFromWAL\<close> over the lines of one file.\<close>

fun recover_lines :: "string list \<Rightarrow> recovered \<Rightarrow> recovered" where
  "recover_lines [] data = data"
| "recover_lines (line # lines) data =
     (if line = [] then recover_lines lines data
      else case deserializeTransaction line TransactionRecord_new of
             Some (mid, tr) \<Rightarrow> recover_lines lines (push_back_for mid tr data)
           | None \<Rightarrow> recover_lines lines data)"

text \<open>The outer loop over the WAL files; a file that cannot be opened is passed over.\<close>

fun recover_files :: "(string \<times> string) list \<Rightarrow> string list \<Rightarrow> recovered \<Rightarrow> recovered" where
  "recover_files files [] data = data"
| "recover_files files (wal_file # wal_files) data =
     (case map_of files wal_file of
        None \<Rightarrow> recover_files files wal_files data
      | Some content \<Rightarrow>
          recover_files files wal_files (recover_lines (getline_all (CHR 0x0A) content) data))"

definition recoverFromWAL :: "PersistenceManager \<Rightarrow> recovered" where
  "recoverFromWAL pm = recover_files (data_dir_files pm) (getWALFiles pm) []"

text \<open>
  \<^verbatim>\<open>validateDataIntegrity\<close>: for each tenant first the loop over \<open>i = 1 .. size - 1\<close> that
  compares neighbouring timestamps, then the loop over the required fields; the first
  violation returns \<^verbatim>\<open>false\<close>.
\<close>

fun timestamp_order_loop :: "TransactionRecord list \<Rightarrow> bool" where
  "timestamp_order_loop (prev # cur # rest) =
     (if timestamp cur < timestamp prev then False else timestamp_order_loop (cur # rest))"
| "timestamp_order_loop [prev] = True"
| "timestamp_order_loop [] = True"

fun required_fields_loop :: "TransactionRecord list \<Rightarrow> bool" where
  "required_fields_loop [] = True"
| "required_fields_loop (tr # rest) =
     (if trans_id tr = [] \<or> item_id tr = [] \<or> (type tr \<noteq> ''in'' \<and> type tr \<noteq> ''out'') \<or>
         sint (quantity tr) \<le> 0
      then False else required_fields_loop rest)"

fun validateDataIntegrity :: "recovered \<Rightarrow> bool" where
  "validateDataIntegrity [] = True"
| "validateDataIntegrity ((mid, transactions) # data) =
     (if \<not> timestamp_order_loop transactions then False
      else if \<not> required_fields_loop transactions then False
      else validateDataIntegrity data)"

text \<open>
  The constructor of \<^verbatim>\<open>PersistenceManager\<close> throws when the data directory cannot be
  created or the WAL file cannot be opened (\<open>None\<close>). Opening \<^verbatim>\<open>current.wal\<close> in append
  mode creates it when it does not exist.
\<close>

record disk =
  can_create_dir :: bool
  can_open_wal :: bool
  disk_files :: "(string \<times> string) list"

definition PersistenceManager_new :: "disk \<Rightarrow> PersistenceManager option" where
  "PersistenceManager_new d =
     (if \<not> can_create_dir d then None
      else if \<not> can_open_wal d then None
      else Some \<lparr>wal_stream_open = True,
                 data_dir_files = append_to_file ''current.wal'' [] (disk_files d),
                 wal_size_limit = 100 * 1024 * 1024\<rparr>)"

subsection \<open>memory_database.cpp: the Store\<close>

text \<open>
  \<^verbatim>\<open>ManagerData\<close> is one tenant's Ledger: the vector of events and the atomic counter of
  published events (a \<^verbatim>\<open>size_t\<close>; it counts elements of a vector in memory, so it is a
  natural number that never reaches \<open>2 ^ 64\<close>). The Store holds \<^verbatim>\<open>managers_\<close>, the
  pointer \<^verbatim>\<open>persistence_\<close> (\<open>None\<close> when null) and the flag \<^verbatim>\<open>persistence_enabled_\<close>.
  The model is sequential: one call runs at a time.
\<close>

record ManagerData =
  transactions :: "TransactionRecord list"
  count :: nat

record MemoryDatabase =
  managers :: "string \<rightharpoonup> ManagerData"
  persistence :: "PersistenceManager option"
  persistence_enabled :: bool

datatype ErrorCode =
  INVALID_PARAMETER
| INVALID_TRANSACTION_TYPE
| DUPLICATE_TRANSACTION_ID
| WAL_WRITE_FAILED
| UNKNOWN_ERROR

text \<open>\<^verbatim>\<open>Result<void>\<close>: \<open>Inl\<close> carries the error code, \<open>Inr ()\<close> is success.\<close>

type_synonym Result_void = "ErrorCode + unit"

text \<open>The loop of the constructor that moves the recovered data into \<^verbatim>\<open>managers_\<close>.\<close>

fun restore_loop :: "recovered \<Rightarrow> (string \<rightharpoonup> ManagerData) \<Rightarrow> (string \<rightharpoonup> ManagerData)" where
  "restore_loop [] m = m"
| "restore_loop ((mid, trs) # data) m =
     restore_loop data (m(mid \<mapsto> \<lparr>transactions = trs, count = length trs\<rparr>))"

definition MemoryDatabase_new :: "disk \<Rightarrow> MemoryDatabase" where
  "MemoryDatabase_new d =
     (case PersistenceManager_new d of
        None \<Rightarrow> \<lparr>managers = Map.empty, persistence = None, persistence_enabled = False\<rparr>
      | Some pm \<Rightarrow>
          (let recovered_data = recoverFromWAL pm
           in if recovered_data \<noteq> [] then
                if validateDataIntegrity recovered_data then
                  \<lparr>managers = restore_loop recovered_data Map.empty, persistence = Some pm,
                   persistence_enabled = True\<rparr>
                else \<lparr>managers = Map.empty, persistence = Some pm, persistence_enabled = True\<rparr>
              else \<lparr>managers = Map.empty, persistence = Some pm, persistence_enabled = True\<rparr>))"

definition enablePersistence :: "bool \<Rightarrow> MemoryDatabase \<Rightarrow> MemoryDatabase" where
  "enablePersistence enable db = db\<lparr>persistence_enabled := enable \<and> persistence db \<noteq> None\<rparr>"

text \<open>
  The duplicate scan \<^verbatim>\<open>for (i = 0; i < current_count && i < transactions.size(); ++i)\<close>
  runs over \<open>take current_count transactions\<close> and returns at the first match.
\<close>

fun duplicate_scan :: "string \<Rightarrow> TransactionRecord list \<Rightarrow> bool" where
  "duplicate_scan tid [] = False"
| "duplicate_scan tid (x # xs) = (if trans_id x = tid then True else duplicate_scan tid xs)"

definition is_duplicate :: "MemoryDatabase \<Rightarrow> string \<Rightarrow> TransactionRecord \<Rightarrow> bool" where
  "is_duplicate db mid tr =
     (case managers db mid of
        None \<Rightarrow> False
      | Some d \<Rightarrow> duplicate_scan (trans_id tr) (take (count d) (transactions d)))"

text \<open>
  The memory update: \<^verbatim>\<open>managers_[manager_id]\<close> creates an empty Ledger for a new tenant,
  \<^verbatim>\<open>push_back\<close> appends, \<^verbatim>\<open>fetch_add(1)\<close> publishes.
\<close>

definition memory_update :: "string \<Rightarrow> TransactionRecord \<Rightarrow> MemoryDatabase \<Rightarrow> MemoryDatabase" where
  "memory_update mid tr db =
     (let d = (case managers db mid of None \<Rightarrow> \<lparr>transactions = [], count = 0\<rparr> | Some d \<Rightarrow> d)
      in db\<lparr>managers := (managers db)(mid \<mapsto> \<lparr>transactions = transactions d @ [tr], count = count d + 1\<rparr>)\<rparr>)"

definition appendTransaction ::
  "io_env \<Rightarrow> string \<Rightarrow> TransactionRecord \<Rightarrow> MemoryDatabase \<Rightarrow> Result_void \<times> MemoryDatabase" where
  "appendTransaction env mid tr db =
     (if mid = [] then (Inl INVALID_PARAMETER, db)
      else if trans_id tr = [] \<or> item_id tr = [] then (Inl INVALID_PARAMETER, db)
      else if type tr \<noteq> ''in'' \<and> type tr \<noteq> ''out'' then (Inl INVALID_TRANSACTION_TYPE, db)
      else if sint (quantity tr) \<le> 0 then (Inl INVALID_PARAMETER, db)
      else if is_duplicate db mid tr then (Inl DUPLICATE_TRANSACTION_ID, db)
      else
        case (if persistence_enabled db then persistence db else None) of
          Some pm \<Rightarrow>
            (case writeToWAL env mid tr pm of
               (False, pm') \<Rightarrow> (Inl WAL_WRITE_FAILED, db\<lparr>persistence := Some pm'\<rparr>)
             | (True, pm') \<Rightarrow> (Inr (), memory_update mid tr (db\<lparr>persistence := Some pm'\<rparr>)))
        | None \<Rightarrow> (Inr (), memory_update mid tr db))"

definition getTransactions :: "MemoryDatabase \<Rightarrow> string \<Rightarrow> TransactionRecord list" where
  "getTransactions db mid =
     (case managers db mid of
        None \<Rightarrow> []
      | Some d \<Rightarrow> take (count d) (transactions d))"

definition getTransactionCount :: "MemoryDatabase \<Rightarrow> string \<Rightarrow> nat" where
  "getTransactionCount db mid = (case managers db mid of None \<Rightarrow> 0 | Some d \<Rightarrow> count d)"

subsection \<open>memory_database.cpp: the derived views\<close>

text \<open>
  A \<^verbatim>\<open>std::map\<close> is an association list with ascending keys, which is the order of its
  iteration. \<open>map_of\<close> is \<^verbatim>\<open>find\<close>, \<open>std_map_put\<close> stores a value under a key.
\<close>

fun std_map_put :: "'k::linorder \<Rightarrow> 'v \<Rightarrow> ('k \<times> 'v) list \<Rightarrow> ('k \<times> 'v) list" where
  "std_map_put k v [] = [(k, v)]"
| "std_map_put k v ((k', v') # m) =
     (if k < k' then (k, v) # (k', v') # m
      else if k = k' then (k, v) # m
      else (k', v') # std_map_put k v m)"

record InventoryRecord =
  item_id_inv :: string
  warehouse_id_inv :: string
  quantity_inv :: c_int
  avg_price :: double


text \<open>The body of the first loop of \<^verbatim>\<open>calculateInventory\<close>, for one event.\<close>

definition inventory_step ::
  "(rat \<Rightarrow> rat) \<Rightarrow> TransactionRecord \<Rightarrow> ((string \<times> string) \<times> InventoryRecord) list
     \<Rightarrow> ((string \<times> string) \<times> InventoryRecord) list" where
  "inventory_step rnd tr inventory_map =
     (let key = (warehouse_id tr, item_id tr);
          record = (case map_of inventory_map key of
                      None \<Rightarrow> \<lparr>item_id_inv = item_id tr, warehouse_id_inv = warehouse_id tr,
                               quantity_inv = 0, avg_price = 0\<rparr>
                    | Some r \<Rightarrow> r)
      in if isInbound tr then
           (let total_value =
                  fadd rnd (fmul rnd (int_to_double (quantity_inv record)) (avg_price record))
                    (fmul rnd (int_to_double (quantity tr)) (unit_price tr));
                q = quantity_inv record + quantity tr
            in std_map_put key
                 (record\<lparr>quantity_inv := q,
                    avg_price := (if 0 < sint q then fdiv rnd total_value (int_to_double q)
                                  else avg_price record)\<rparr>)
                 inventory_map)
         else std_map_put key (record\<lparr>quantity_inv := quantity_inv record - quantity tr\<rparr>)
                inventory_map)"

text \<open>The body of the second loop: \<^verbatim>\<open>result[warehouse].push_back(record)\<close> when the quantity is positive.\<close>

definition inventory_collect ::
  "(string \<times> string) \<times> InventoryRecord \<Rightarrow> (string \<times> InventoryRecord list) list
     \<Rightarrow> (string \<times> InventoryRecord list) list" where
  "inventory_collect pair result =
     (if 0 < sint (quantity_inv (snd pair)) then
        std_map_put (fst (fst pair))
          ((case map_of result (fst (fst pair)) of None \<Rightarrow> [] | Some v \<Rightarrow> v) @ [snd pair]) result
      else result)"

text \<open>The first loop, over the events in the order of the sequence, and the whole function.\<close>

definition inventory_loop ::
  "(rat \<Rightarrow> rat) \<Rightarrow> TransactionRecord list \<Rightarrow> ((string \<times> string) \<times> InventoryRecord) list" where
  "inventory_loop rnd trs = foldl (\<lambda>m tr. inventory_step rnd tr m) [] trs"

definition calculateInventory ::
  "(rat \<Rightarrow> rat) \<Rightarrow> MemoryDatabase \<Rightarrow> string \<Rightarrow> (string \<times> InventoryRecord list) list" where
  "calculateInventory rnd db mid =
     foldl (\<lambda>result pair. inventory_collect pair result)
       [] (inventory_loop rnd (getTransactions db mid))"



section \<open>Reference inputs and specification-side notions\<close>

text \<open>
  A Ledger is consistent when its published length is the length of its sequence, which
  is the state between two calls.
\<close>

definition ledger_consistent :: "MemoryDatabase \<Rightarrow> string \<Rightarrow> bool" where
  "ledger_consistent db mid =
     (case managers db mid of None \<Rightarrow> True | Some d \<Rightarrow> count d = length (transactions d))"

text \<open>Concrete inputs: a clock reading, environments, disks and the events of the scenarios.\<close>

definition example_time :: sys_time where
  "example_time =
     \<lparr>tm_year = 124, tm_mon = 0, tm_mday = 15, tm_hour = 10, tm_min = 30, tm_sec = 0,
      millis = 7\<rparr>"

definition example_env :: io_env where
  "example_env = \<lparr>now = example_time, write_error = None, fs_error = False, rotateWALFile = (\<lambda>pm. pm)\<rparr>"

definition failing_env :: io_env where
  "failing_env = \<lparr>now = example_time, write_error = None, fs_error = True, rotateWALFile = (\<lambda>pm. pm)\<rparr>"

definition fresh_disk :: disk where
  "fresh_disk = \<lparr>can_create_dir = True, can_open_wal = True, disk_files = []\<rparr>"

definition broken_disk :: disk where
  "broken_disk = \<lparr>can_create_dir = False, can_open_wal = True, disk_files = []\<rparr>"

definition event_A :: TransactionRecord where
  "event_A =
     TransactionRecord_new\<lparr>trans_id := ''T1'', item_id := ''I1'', type := ''in'',
       quantity := 10, unit_price := 2\<rparr>"

definition event_B :: TransactionRecord where
  "event_B =
     TransactionRecord_new\<lparr>trans_id := ''T2'', item_id := ''I1'', type := ''in'',
       quantity := 10, unit_price := 4\<rparr>"

definition event_C :: TransactionRecord where
  "event_C =
     TransactionRecord_new\<lparr>trans_id := ''T3'', item_id := ''I1'', type := ''out'',
       quantity := 25\<rparr>"

text \<open>
  The integrity rule in the words of the specification: in every recovered tenant sequence
  the timestamps are non-decreasing and every event satisfies the field rules of a live
  append.
\<close>

definition event_fields_valid :: "TransactionRecord \<Rightarrow> bool" where
  "event_fields_valid tr =
     (trans_id tr \<noteq> [] \<and> item_id tr \<noteq> [] \<and> (type tr = ''in'' \<or> type tr = ''out'') \<and>
      0 < sint (quantity tr))"

definition integrity_spec :: "recovered \<Rightarrow> bool" where
  "integrity_spec data =
     (\<forall>(mid, trs) \<in> set data.
        sorted (map timestamp trs) \<and> (\<forall>tr \<in> set trs. event_fields_valid tr))"

text \<open>A data directory whose WAL holds a sound event of one tenant and an event with quantity 0 of another.\<close>

definition corrupt_disk :: disk where
  "corrupt_disk =
     \<lparr>can_create_dir = True, can_open_wal = True,
      disk_files =
        [(''current.wal'',
          ''2024-01-15T10:30:00.007Z|m1|T1|I1||in|10|2.00||||||||n'' @ [CHR 0x0A] @
          ''2024-01-15T10:30:00.008Z|m2|T9|I1||in|0|2.00||||||||n'' @ [CHR 0x0A])]\<rparr>"

text \<open>
  Reading the derived views: the quantity and average price of a position of the
  inventory map (0 and 0.0 before the position exists), and the records the result holds
  for a warehouse.
\<close>

definition position_of ::
  "((string \<times> string) \<times> InventoryRecord) list \<Rightarrow> string \<times> string \<Rightarrow> c_int \<times> double" where
  "position_of inventory_map key =
     (case map_of inventory_map key of
        None \<Rightarrow> (0, 0)
      | Some r \<Rightarrow> (quantity_inv r, avg_price r))"

definition records_at :: "(string \<times> InventoryRecord list) list \<Rightarrow> string \<Rightarrow> InventoryRecord list" where
  "records_at result w = (case map_of result w of None \<Rightarrow> [] | Some v \<Rightarrow> v)"

text \<open>
  The inventory rule in the words of the specification: events are grouped by warehouse
  and item; an inbound event adds its quantity and, when the new quantity is positive, sets
  the average to (old quantity * old average + quantity * unit price) / new quantity; an
  outbound event subtracts its quantity and leaves the price. The rounding \<open>rnd\<close> is
  applied to the result of each operation of the formula. \<open>position_fold\<close> applies the
  rule, from quantity 0 and average 0.0, to the events of one (warehouse, item) pair in
  their order.
\<close>

definition event_key :: "TransactionRecord \<Rightarrow> string \<times> string" where
  "event_key tr = (warehouse_id tr, item_id tr)"

definition position_update ::
  "(rat \<Rightarrow> rat) \<Rightarrow> c_int \<times> double \<Rightarrow> TransactionRecord \<Rightarrow> c_int \<times> double" where
  "position_update rnd pos tr =
     (if type tr = ''in'' then
        (fst pos + quantity tr,
         if 0 < sint (fst pos + quantity tr)
         then rnd (rnd (rnd (of_int (sint (fst pos)) * snd pos) +
                        rnd (of_int (sint (quantity tr)) * unit_price tr)) /
                   of_int (sint (fst pos + quantity tr)))
         else snd pos)
      else (fst pos - quantity tr, snd pos))"

definition position_fold ::
  "(rat \<Rightarrow> rat) \<Rightarrow> TransactionRecord list \<Rightarrow> string \<times> string \<Rightarrow> c_int \<times> double" where
  "position_fold rnd trs key =
     foldl (position_update rnd) (0, 0) (filter (\<lambda>tr. event_key tr = key) trs)"

text \<open>
  The inventory of a warehouse in the words of the specification: of the (warehouse, item)
  pairs of the events, in ascending order, the ones of that warehouse whose folded quantity
  is positive, each with its folded quantity and average price.
\<close>

definition inventory_spec ::
  "(rat \<Rightarrow> rat) \<Rightarrow> TransactionRecord list \<Rightarrow> string \<Rightarrow> InventoryRecord list" where
  "inventory_spec rnd trs w =
     map (\<lambda>key. \<lparr>item_id_inv = snd key, warehouse_id_inv = fst key,
                  quantity_inv = fst (position_fold rnd trs key),
                  avg_price = snd (position_fold rnd trs key)\<rparr>)
       (filter (\<lambda>key. fst key = w \<and> 0 < sint (fst (position_fold rnd trs key)))
          (sorted_list_of_set (event_key ` set trs)))"

text \<open>
  The rounding of the binary64 format: to the nearest number with a significand of 53
  bits, ties to the even significand; below \<open>2 ^ - 1022\<close> the spacing of the numbers stays
  \<open>2 ^ - 1074\<close>. The range of the exponent is not bounded above.
\<close>

function bit_length :: "int \<Rightarrow> int" where
  "bit_length n = (if n \<le> 0 then 0 else 1 + bit_length (n div 2))"
  by auto
termination
  by (relation "measure nat") auto

declare bit_length.simps [simp del]

definition pow2 :: "int \<Rightarrow> rat" where
  "pow2 e = (if 0 \<le> e then 2 ^ nat e else 1 / 2 ^ nat (- e))"

definition binade :: "rat \<Rightarrow> int" where
  "binade x =
     (let e = bit_length (fst (quotient_of \<bar>x\<bar>)) - bit_length (snd (quotient_of \<bar>x\<bar>))
      in if pow2 e \<le> \<bar>x\<bar> then e else e - 1)"

definition round_binary64 :: "rat \<Rightarrow> rat" where
  "round_binary64 x =
     (if x = 0 then 0
      else let ulp = pow2 (max (binade x) (- 1022) - 52)
           in of_int (round_half_even (x / ulp)) * ulp)"

text \<open>
  Further inputs of the inventory view: a fourth event, appended after A, B and C; and an
  inbound event of 3 units at the double nearest to 0.1, appended to an empty Store. The
  Stores are built with persistence disabled.
\<close>

definition event_D :: TransactionRecord where
  "event_D =
     TransactionRecord_new\<lparr>trans_id := ''T4'', item_id := ''I1'', type := ''in'',
       quantity := 100, unit_price := 5\<rparr>"

definition store_ABCD :: MemoryDatabase where
  "store_ABCD =
     snd (appendTransaction example_env ''m1'' event_D
       (snd (appendTransaction example_env ''m1'' event_C
         (snd (appendTransaction example_env ''m1'' event_B
           (snd (appendTransaction example_env ''m1'' event_A
             (MemoryDatabase_new broken_disk))))))))"

definition event_tenth :: TransactionRecord where
  "event_tenth =
     TransactionRecord_new\<lparr>trans_id := ''T1'', item_id := ''I2'', type := ''in'',
       quantity := 3, unit_price := 3602879701896397 / 36028797018963968\<rparr>"

definition store_tenth :: MemoryDatabase where
  "store_tenth =
     snd (appendTransaction example_env ''m1'' event_tenth (MemoryDatabase_new broken_disk))"

text \<open>The Store of the scenarios: the events A, B and C appended in turn to a fresh Store.\<close>

definition store_A :: MemoryDatabase where
  "store_A = snd (appendTransaction example_env ''m1'' event_A (MemoryDatabase_new fresh_disk))"

definition store_AB :: MemoryDatabase where
  "store_AB = snd (appendTransaction example_env ''m1'' event_B store_A)"

definition store_ABC :: MemoryDatabase where
  "store_ABC = snd (appendTransaction example_env ''m1'' event_C store_AB)"











text \<open>
  Reading a recovery: the lines of all WAL files in the order in which \<open>recoverFromWAL\<close>
  reads them, the sequence recovered for a tenant, and the events that the well-formed
  ones among some lines hold for a tenant, in the order of the lines.
\<close>

definition wal_lines :: "PersistenceManager \<Rightarrow> string list" where
  "wal_lines pm =
     concat (map (\<lambda>wal_file. case map_of (data_dir_files pm) wal_file of
                                None \<Rightarrow> []
                              | Some content \<Rightarrow> getline_all (CHR 0x0A) content)
               (getWALFiles pm))"

definition tenant_sequence :: "recovered \<Rightarrow> string \<Rightarrow> TransactionRecord list" where
  "tenant_sequence data mid = (case map_of data mid of None \<Rightarrow> [] | Some v \<Rightarrow> v)"

definition parsed_events :: "string \<Rightarrow> string list \<Rightarrow> TransactionRecord list" where
  "parsed_events mid lines =
     map snd (filter (\<lambda>r. fst r = mid)
       (List.map_filter (\<lambda>line. deserializeTransaction line TransactionRecord_new) lines))"

text \<open>A data directory whose WAL holds a line with four fields between two well-formed lines.\<close>

definition torn_disk :: disk where
  "torn_disk =
     \<lparr>can_create_dir = True, can_open_wal = True,
      disk_files =
        [(''current.wal'',
          ''2024-01-15T10:30:00.007Z|m1|T1|I1||in|10|2.00||||||||n'' @ [CHR 0x0A] @
          ''2024-01-15T10:30:00.008Z|m1|T2|I1'' @ [CHR 0x0A] @
          ''2024-01-15T10:30:00.009Z|m1|T3|I1||in|10|2.00||||||||n'' @ [CHR 0x0A])]\<rparr>"





















text \<open>
  The Stores of the recovery scenarios. An event with a note is appended to a fresh Store;
  so is an event that carries the timestamp the WAL will assign and a \<open>manager_id\<close> of its
  own. A second event is appended by a call that reads an earlier clock. A call fails after
  its line was written, and is made again. A call's write to the stream fails.
\<close>

definition event_noted_B :: TransactionRecord where
  "event_noted_B = event_B\<lparr>note := ''second delivery''\<rparr>"





















section \<open>Properties\<close>

subsection \<open>Printing and reading numbers\<close>

















subsection \<open>The reference inputs, evaluated\<close>

lemma getCurrentTimestamp_example:
  "getCurrentTimestamp example_time = ''2024-01-15T10:30:00.007Z''"
  by code_simp

lemma fresh_db:
  "MemoryDatabase_new fresh_disk =
     \<lparr>managers = Map.empty,
      persistence = Some \<lparr>wal_stream_open = True, data_dir_files = [(''current.wal'', [])],
                          wal_size_limit = 104857600\<rparr>,
      persistence_enabled = True\<rparr>"
  by (simp add: MemoryDatabase_new_def fresh_disk_def PersistenceManager_new_def
      recoverFromWAL_def getWALFiles_def ends_with_def getline_all_def)

lemma serialize_event_A:
  "serializeTransaction example_time ''m1'' event_A =
     ''2024-01-15T10:30:00.007Z|m1|T1|I1||in|10|2.00||||||||''"
  by (simp add: serializeTransaction_def getCurrentTimestamp_example event_A_def
      TransactionRecord_new_def ostream_int_def show_int_def show_nat.simps ostream_fixed2_def
      round_half_even_def digit_char_def)

lemma append_event_A:
  "appendTransaction example_env ''m1'' event_A (MemoryDatabase_new fresh_disk) =
     (Inr (),
      \<lparr>managers = [''m1'' \<mapsto> \<lparr>transactions = [event_A], count = 1\<rparr>],
       persistence =
         Some \<lparr>wal_stream_open = True,
               data_dir_files =
                 [(''current.wal'',
                   ''2024-01-15T10:30:00.007Z|m1|T1|I1||in|10|2.00||||||||'' @ [CHR 0x0A])],
               wal_size_limit = 104857600\<rparr>,
       persistence_enabled = True\<rparr>)"
proof -
  have v: "trans_id event_A \<noteq> []" "item_id event_A \<noteq> []" "type event_A = ''in''"
    "0 < sint (quantity event_A)"
    by (simp_all add: event_A_def)
  show ?thesis
    using v
    by (simp add: fresh_db appendTransaction_def is_duplicate_def writeToWAL_def example_env_def
        serialize_event_A shouldCreateSnapshot_def file_size_def memory_update_def)
qed

subsection \<open>The append protocol\<close>

lemma duplicate_scan_iff: "duplicate_scan tid xs \<longleftrightarrow> tid \<in> trans_id ` set xs"
  by (induction xs) auto

lemma is_duplicate_iff:
  "is_duplicate db mid tr \<longleftrightarrow> trans_id tr \<in> trans_id ` set (getTransactions db mid)"
  by (simp add: is_duplicate_def getTransactions_def duplicate_scan_iff split: option.splits)

lemma memory_update_count:
  "getTransactionCount (memory_update mid tr db) mid = getTransactionCount db mid + 1"
  by (simp add: memory_update_def getTransactionCount_def Let_def split: option.splits)

lemma memory_update_transactions:
  "ledger_consistent db mid \<Longrightarrow>
   getTransactions (memory_update mid tr db) mid = getTransactions db mid @ [tr]"
  by (simp add: memory_update_def getTransactions_def ledger_consistent_def Let_def
      split: option.splits)

lemma memory_update_persistence: "persistence (memory_update mid tr db) = persistence db"
  by (simp add: memory_update_def Let_def)


lemma ledger_consistent_memory_update:
  "ledger_consistent db m \<Longrightarrow> ledger_consistent (memory_update mid tr db) m"
  by (auto simp: memory_update_def ledger_consistent_def Let_def split: option.splits)

lemma getTransactions_persistence_update [simp]:
  "getTransactions (db\<lparr>persistence := p\<rparr>) m = getTransactions db m"
  by (simp add: getTransactions_def)

lemma ledger_consistent_persistence_update [simp]:
  "ledger_consistent (db\<lparr>persistence := p\<rparr>) m = ledger_consistent db m"
  by (simp add: ledger_consistent_def)

lemma appendTransaction_error_unchanged:
  "fst (appendTransaction env mid tr db) = Inl e \<Longrightarrow>
   managers (snd (appendTransaction env mid tr db)) = managers db"
  by (auto simp: appendTransaction_def split: if_splits option.splits prod.splits bool.splits)

lemma appendTransaction_success:
  "appendTransaction env mid tr db = (Inr u, db') \<Longrightarrow>
   managers db' = managers (memory_update mid tr db)"
  by (auto simp: appendTransaction_def memory_update_def Let_def
      split: if_splits option.splits prod.splits bool.splits)

text \<open>
  C1. When the WAL write of \<open>appendTransaction\<close> is reached (the event passed validation and
  the duplicate check, persistence is on) and \<open>writeToWAL\<close> returns false, the call returns
  \<open>WAL_WRITE_FAILED\<close> and \<open>managers\<close> is what it was: the tenant's sequence and published
  count are unchanged and no Ledger is created.
\<close>

theorem wal_failure_leaves_memory_unchanged:
  assumes "mid \<noteq> []" and "trans_id tr \<noteq> []" and "item_id tr \<noteq> []"
    and "type tr = ''in'' \<or> type tr = ''out''"
    and "0 < sint (quantity tr)"
    and "\<not> is_duplicate db mid tr"
    and "persistence_enabled db" and "persistence db = Some pm"
    and "fst (writeToWAL env mid tr pm) = False"
  shows "fst (appendTransaction env mid tr db) = Inl WAL_WRITE_FAILED \<and>
         managers (snd (appendTransaction env mid tr db)) = managers db \<and>
         getTransactions (snd (appendTransaction env mid tr db)) mid = getTransactions db mid \<and>
         getTransactionCount (snd (appendTransaction env mid tr db)) mid =
           getTransactionCount db mid"
proof -
  obtain pm' where w: "writeToWAL env mid tr pm = (False, pm')"
    using assms(9) by (cases "writeToWAL env mid tr pm") auto
  have r: "appendTransaction env mid tr db = (Inl WAL_WRITE_FAILED, db\<lparr>persistence := Some pm'\<rparr>)"
    using assms(1-8) w by (auto simp: appendTransaction_def)
  show ?thesis
    by (simp add: r getTransactions_def getTransactionCount_def)
qed

theorem wal_failure_witness:
  "fst (appendTransaction failing_env ''m1'' event_A (MemoryDatabase_new fresh_disk)) =
     Inl WAL_WRITE_FAILED \<and>
   managers (snd (appendTransaction failing_env ''m1'' event_A (MemoryDatabase_new fresh_disk))) =
     managers (MemoryDatabase_new fresh_disk)"
proof -
  let ?pm = "\<lparr>wal_stream_open = True, data_dir_files = [(''current.wal'', [])],
              wal_size_limit = 104857600\<rparr>"
  have v: "trans_id event_A \<noteq> []" "item_id event_A \<noteq> []"
    "type event_A = ''in'' \<or> type event_A = ''out''" "0 < sint (quantity event_A)"
    by (simp_all add: event_A_def)
  have d: "\<not> is_duplicate (MemoryDatabase_new fresh_disk) ''m1'' event_A"
    by (simp add: fresh_db is_duplicate_def)
  have p: "persistence_enabled (MemoryDatabase_new fresh_disk)"
    "persistence (MemoryDatabase_new fresh_disk) = Some ?pm"
    by (simp_all add: fresh_db)
  have w: "fst (writeToWAL failing_env ''m1'' event_A ?pm) = False"
    by (simp add: writeToWAL_def failing_env_def Let_def)
  have m: "''m1'' \<noteq> []" by simp
  from wal_failure_leaves_memory_unchanged [OF m v d p w] show ?thesis
    by simp
qed



text \<open>
  The consistency of every Ledger holds after the construction of the Store and is kept by
  every call, and a valid event that is no duplicate is appended with success unless the
  WAL write fails.
\<close>

lemma restore_loop_consistent:
  assumes "\<forall>k d. m0 k = Some d \<longrightarrow> count d = length (transactions d)"
    and "restore_loop data m0 k = Some d"
  shows "count d = length (transactions d)"
  using assms
proof (induction data arbitrary: m0)
  case Nil
  then show ?case by simp
next
  case (Cons p data)
  obtain mid trs where p: "p = (mid, trs)" by (cases p)
  have "\<forall>k d. (m0(mid \<mapsto> \<lparr>transactions = trs, count = length trs\<rparr>)) k = Some d \<longrightarrow>
      count d = length (transactions d)"
    using Cons.prems(1) by auto
  then show ?case
    using Cons.IH Cons.prems(2) unfolding p restore_loop.simps by blast
qed

lemma ledger_consistent_new: "ledger_consistent (MemoryDatabase_new d) m"
proof (cases "managers (MemoryDatabase_new d) m")
  case None
  then show ?thesis by (simp add: ledger_consistent_def)
next
  case (Some x)
  then have "\<exists>data. restore_loop data Map.empty m = Some x"
    by (auto simp: MemoryDatabase_new_def Let_def split: option.splits if_splits)
  then have "count x = length (transactions x)"
    using restore_loop_consistent [of Map.empty _ m x] by auto
  then show ?thesis
    using Some by (simp add: ledger_consistent_def)
qed

lemma ledger_consistent_append:
  assumes "ledger_consistent db m"
  shows "ledger_consistent (snd (appendTransaction env mid tr db)) m"
proof (cases "fst (appendTransaction env mid tr db)")
  case (Inl e)
  then have "managers (snd (appendTransaction env mid tr db)) = managers db"
    by (rule appendTransaction_error_unchanged)
  then show ?thesis
    using assms by (simp add: ledger_consistent_def)
next
  case (Inr u)
  then have "managers (snd (appendTransaction env mid tr db)) =
      managers (memory_update mid tr db)"
    using appendTransaction_success [of env mid tr db u "snd (appendTransaction env mid tr db)"]
    by (cases "appendTransaction env mid tr db") simp
  then show ?thesis
    using ledger_consistent_memory_update [OF assms, of mid tr]
    by (simp add: ledger_consistent_def)
qed

lemma ledger_consistent_enablePersistence:
  "ledger_consistent (enablePersistence enable db) m = ledger_consistent db m"
  by (simp add: enablePersistence_def ledger_consistent_def)

lemma valid_append_succeeds:
  assumes "mid \<noteq> []" and "trans_id tr \<noteq> []" and "item_id tr \<noteq> []"
    and "type tr = ''in'' \<or> type tr = ''out''"
    and "0 < sint (quantity tr)"
    and "\<not> is_duplicate db mid tr"
    and "\<forall>pm. persistence_enabled db \<longrightarrow> persistence db = Some pm \<longrightarrow>
           fst (writeToWAL env mid tr pm)"
  shows "fst (appendTransaction env mid tr db) = Inr ()"
  using assms
  by (auto simp: appendTransaction_def split: option.splits prod.splits bool.splits)

lemma append_dup_invalid:
  "fst (appendTransaction example_env ''m1'' (event_A\<lparr>quantity := 0\<rparr>)
          (snd (appendTransaction example_env ''m1'' event_A (MemoryDatabase_new fresh_disk)))) =
     Inl INVALID_PARAMETER"
  by (simp add: append_event_A appendTransaction_def event_A_def)

text \<open>
  The field validation comes before the duplicate scan: an event that repeats a published
  \<open>trans_id\<close> and has quantity 0 is answered with \<open>INVALID_PARAMETER\<close>.
\<close>

theorem duplicate_of_invalid_event_counterexample:
  "trans_id (event_A\<lparr>quantity := 0\<rparr>) \<in>
     trans_id ` set (getTransactions
        (snd (appendTransaction example_env ''m1'' event_A (MemoryDatabase_new fresh_disk))) ''m1'') \<and>
   fst (appendTransaction example_env ''m1'' (event_A\<lparr>quantity := 0\<rparr>)
          (snd (appendTransaction example_env ''m1'' event_A (MemoryDatabase_new fresh_disk)))) \<noteq>
     Inl DUPLICATE_TRANSACTION_ID"
  by (simp add: append_dup_invalid) (simp add: append_event_A getTransactions_def)

text \<open>
  C5 (as amended). An event that passes the field validation (non-empty tenant id,
  \<open>trans_id\<close> and \<open>item_id\<close>, type in or out, positive quantity) and whose \<open>trans_id\<close> is the
  \<open>trans_id\<close> of an event among the published ones of the tenant, which is what the scan over
  the indices below the published length finds, is answered with
  \<open>DUPLICATE_TRANSACTION_ID\<close>, and the Store is unchanged: the tenant's count and sequence
  are what they were.
\<close>

theorem duplicate_trans_id_rejected:
  assumes "mid \<noteq> []" and "trans_id tr \<noteq> []" and "item_id tr \<noteq> []"
    and "type tr = ''in'' \<or> type tr = ''out''"
    and "0 < sint (quantity tr)"
    and "trans_id tr \<in> trans_id ` set (getTransactions db mid)"
  shows "appendTransaction env mid tr db = (Inl DUPLICATE_TRANSACTION_ID, db) \<and>
         getTransactionCount (snd (appendTransaction env mid tr db)) mid =
           getTransactionCount db mid \<and>
         getTransactions (snd (appendTransaction env mid tr db)) mid = getTransactions db mid"
proof -
  have "is_duplicate db mid tr"
    using assms(6) by (simp add: is_duplicate_iff)
  then have "appendTransaction env mid tr db = (Inl DUPLICATE_TRANSACTION_ID, db)"
    using assms(1-5) by (auto simp: appendTransaction_def)
  then show ?thesis by simp
qed

theorem duplicate_trans_id_witness:
  "appendTransaction example_env ''m1'' event_A
     (snd (appendTransaction example_env ''m1'' event_A (MemoryDatabase_new fresh_disk))) =
   (Inl DUPLICATE_TRANSACTION_ID,
    snd (appendTransaction example_env ''m1'' event_A (MemoryDatabase_new fresh_disk)))"
proof -
  let ?db = "snd (appendTransaction example_env ''m1'' event_A (MemoryDatabase_new fresh_disk))"
  have v: "trans_id event_A \<noteq> []" "item_id event_A \<noteq> []"
    "type event_A = ''in'' \<or> type event_A = ''out''" "0 < sint (quantity event_A)"
    by (simp_all add: event_A_def)
  have d: "trans_id event_A \<in> trans_id ` set (getTransactions ?db ''m1'')"
    by (simp add: append_event_A getTransactions_def)
  have m: "''m1'' \<noteq> []" by simp
  from duplicate_trans_id_rejected [OF m v d, of example_env] show ?thesis
    by simp
qed

lemma persistence_off_after_disable: "\<not> persistence_enabled (enablePersistence False db)"
  by (simp add: enablePersistence_def)

lemma persistence_off_after_failed_init:
  "PersistenceManager_new d = None \<Longrightarrow> \<not> persistence_enabled (MemoryDatabase_new d)"
  by (simp add: MemoryDatabase_new_def)

text \<open>
  C10. After \<open>enablePersistence False\<close>, or when the constructor of the persistence manager
  threw during the construction of the Store, \<open>appendTransaction\<close> on a valid event that is
  no duplicate returns success, appends the event and publishes it, and the persistence
  manager (the WAL with it) is what it was, whatever the environment of the call.
\<close>

theorem append_with_persistence_disabled:
  assumes "mid \<noteq> []" and "trans_id tr \<noteq> []" and "item_id tr \<noteq> []"
    and "type tr = ''in'' \<or> type tr = ''out''"
    and "0 < sint (quantity tr)"
    and "\<not> is_duplicate db mid tr"
    and "ledger_consistent db mid"
    and "db = enablePersistence False db0 \<or>
         (PersistenceManager_new d = None \<and> db = MemoryDatabase_new d)"
  shows "fst (appendTransaction env mid tr db) = Inr () \<and>
         persistence (snd (appendTransaction env mid tr db)) = persistence db \<and>
         getTransactionCount (snd (appendTransaction env mid tr db)) mid =
           getTransactionCount db mid + 1 \<and>
         getTransactions (snd (appendTransaction env mid tr db)) mid =
           getTransactions db mid @ [tr]"
proof -
  have off: "\<not> persistence_enabled db"
    using assms(8) persistence_off_after_disable persistence_off_after_failed_init by blast
  have r: "appendTransaction env mid tr db = (Inr (), memory_update mid tr db)"
    using assms(1-6) off by (auto simp: appendTransaction_def)
  show ?thesis
    using assms(7)
    by (simp add: r memory_update_persistence memory_update_count memory_update_transactions)
qed

theorem append_with_persistence_disabled_witness:
  "fst (appendTransaction failing_env ''m1'' event_A
          (enablePersistence False (MemoryDatabase_new fresh_disk))) = Inr () \<and>
   persistence (snd (appendTransaction failing_env ''m1'' event_A
          (enablePersistence False (MemoryDatabase_new fresh_disk)))) =
     persistence (MemoryDatabase_new fresh_disk) \<and>
   getTransactions (snd (appendTransaction failing_env ''m1'' event_A
          (enablePersistence False (MemoryDatabase_new fresh_disk)))) ''m1'' = [event_A] \<and>
   fst (appendTransaction failing_env ''m1'' event_A (MemoryDatabase_new broken_disk)) = Inr () \<and>
   persistence (snd (appendTransaction failing_env ''m1'' event_A
          (MemoryDatabase_new broken_disk))) = None \<and>
   getTransactions (snd (appendTransaction failing_env ''m1'' event_A
          (MemoryDatabase_new broken_disk))) ''m1'' = [event_A]"
proof -
  let ?db1 = "enablePersistence False (MemoryDatabase_new fresh_disk)"
  let ?db2 = "MemoryDatabase_new broken_disk"
  have v: "trans_id event_A \<noteq> []" "item_id event_A \<noteq> []"
    "type event_A = ''in'' \<or> type event_A = ''out''" "0 < sint (quantity event_A)"
    by (simp_all add: event_A_def)
  have m: "''m1'' \<noteq> []" by simp
  have b: "PersistenceManager_new broken_disk = None"
    by (simp add: PersistenceManager_new_def broken_disk_def)
  have db2: "?db2 = \<lparr>managers = Map.empty, persistence = None, persistence_enabled = False\<rparr>"
    by (simp add: MemoryDatabase_new_def b)
  have d1: "\<not> is_duplicate ?db1 ''m1'' event_A" and c1: "ledger_consistent ?db1 ''m1''"
    and g1: "getTransactions ?db1 ''m1'' = []"
    and p1: "persistence ?db1 = persistence (MemoryDatabase_new fresh_disk)"
    by (simp_all add: fresh_db enablePersistence_def is_duplicate_def ledger_consistent_def
        getTransactions_def)
  have d2: "\<not> is_duplicate ?db2 ''m1'' event_A" and c2: "ledger_consistent ?db2 ''m1''"
    and g2: "getTransactions ?db2 ''m1'' = []" and p2: "persistence ?db2 = None"
    by (simp_all add: db2 is_duplicate_def ledger_consistent_def getTransactions_def)
  have h1: "?db1 = enablePersistence False (MemoryDatabase_new fresh_disk) \<or>
            (PersistenceManager_new broken_disk = None \<and> ?db1 = MemoryDatabase_new broken_disk)"
    by simp
  have h2: "?db2 = enablePersistence False (MemoryDatabase_new fresh_disk) \<or>
            (PersistenceManager_new broken_disk = None \<and> ?db2 = MemoryDatabase_new broken_disk)"
    using b by simp
  from append_with_persistence_disabled [OF m v d1 c1 h1, of failing_env]
    append_with_persistence_disabled [OF m v d2 c2 h2, of failing_env]
  show ?thesis
    by (simp add: g1 g2 p1 p2)
qed

subsection \<open>Integrity validation\<close>

lemma timestamp_order_loop_iff: "timestamp_order_loop trs \<longleftrightarrow> sorted (map timestamp trs)"
  by (induction trs rule: timestamp_order_loop.induct) (auto simp: not_less)

lemma required_fields_loop_iff:
  "required_fields_loop trs \<longleftrightarrow> (\<forall>tr \<in> set trs. event_fields_valid tr)"
  by (induction trs) (auto simp: event_fields_valid_def not_le)

lemma validateDataIntegrity_iff: "validateDataIntegrity data \<longleftrightarrow> integrity_spec data"
  by (induction data rule: validateDataIntegrity.induct)
    (auto simp: integrity_spec_def timestamp_order_loop_iff required_fields_loop_iff)

lemma deserialize_line_m1:
  "deserializeTransaction ''2024-01-15T10:30:00.007Z|m1|T1|I1||in|10|2.00||||||||n''
     TransactionRecord_new =
   Some (''m1'', event_A\<lparr>note := ''n'', timestamp := ''2024-01-15T10:30:00.007Z''\<rparr>)"
  by (simp add: deserializeTransaction_def getline_all_def stoi_def stod_def isspace_def
      isdigit_def digits_val_def digit_val_def read_exponent_def event_A_def
      TransactionRecord_new_def)

lemma deserialize_line_m2:
  "deserializeTransaction ''2024-01-15T10:30:00.008Z|m2|T9|I1||in|0|2.00||||||||n''
     TransactionRecord_new =
   Some (''m2'', event_A\<lparr>trans_id := ''T9'', quantity := 0, note := ''n'',
            timestamp := ''2024-01-15T10:30:00.008Z''\<rparr>)"
  by (simp add: deserializeTransaction_def getline_all_def stoi_def stod_def isspace_def
      isdigit_def digits_val_def digit_val_def read_exponent_def event_A_def
      TransactionRecord_new_def)

lemma corrupt_pm:
  "PersistenceManager_new corrupt_disk =
     Some \<lparr>wal_stream_open = True, data_dir_files = disk_files corrupt_disk,
           wal_size_limit = 104857600\<rparr>"
  by (simp add: PersistenceManager_new_def corrupt_disk_def)

lemma corrupt_recovered:
  "recoverFromWAL \<lparr>wal_stream_open = True, data_dir_files = disk_files corrupt_disk,
                   wal_size_limit = 104857600\<rparr> =
     [(''m1'', [event_A\<lparr>note := ''n'', timestamp := ''2024-01-15T10:30:00.007Z''\<rparr>]),
      (''m2'', [event_A\<lparr>trans_id := ''T9'', quantity := 0, note := ''n'',
                  timestamp := ''2024-01-15T10:30:00.008Z''\<rparr>])]"
  by (simp add: recoverFromWAL_def getWALFiles_def ends_with_def corrupt_disk_def getline_all_def
      deserialize_line_m1 deserialize_line_m2)

text \<open>
  C6. \<open>validateDataIntegrity\<close> returns true exactly when, in every tenant sequence, the
  timestamps are non-decreasing and every event has a non-empty \<open>trans_id\<close> and \<open>item_id\<close>, a
  type in or out and a positive quantity. When one violation makes it return false, the
  constructor of the Store adopts nothing of the recovered data: the tenant map is empty.
\<close>

theorem validateDataIntegrity_all_or_nothing:
  "(validateDataIntegrity data \<longleftrightarrow> integrity_spec data) \<and>
   (PersistenceManager_new d = Some pm \<longrightarrow> \<not> integrity_spec (recoverFromWAL pm) \<longrightarrow>
      managers (MemoryDatabase_new d) = Map.empty)"
  by (simp add: validateDataIntegrity_iff MemoryDatabase_new_def Let_def)

theorem validateDataIntegrity_witness:
  "\<not> validateDataIntegrity
       (recoverFromWAL \<lparr>wal_stream_open = True, data_dir_files = disk_files corrupt_disk,
                        wal_size_limit = 104857600\<rparr>) \<and>
   managers (MemoryDatabase_new corrupt_disk) = Map.empty"
proof -
  let ?pm = "\<lparr>wal_stream_open = True, data_dir_files = disk_files corrupt_disk,
              wal_size_limit = 104857600\<rparr>"
  have bad: "\<not> integrity_spec (recoverFromWAL ?pm)"
    by (simp add: corrupt_recovered integrity_spec_def event_fields_valid_def)
  from validateDataIntegrity_all_or_nothing [of "recoverFromWAL ?pm" corrupt_disk ?pm]
    corrupt_pm bad
  show ?thesis by simp
qed

subsection \<open>The inventory view\<close>

lemma map_of_std_map_put:
  "map_of (std_map_put k v m) k' = (if k' = k then Some v else map_of m k')"
  by (induction m) auto

lemma inventory_step_position:
  "position_of (inventory_step rnd tr m) (warehouse_id tr, item_id tr) =
     (let (q, a) = position_of m (warehouse_id tr, item_id tr)
      in if isInbound tr then
           (q + quantity tr,
            if 0 < sint (q + quantity tr)
            then rnd (rnd (rnd (of_int (sint q) * a) +
                           rnd (of_int (sint (quantity tr)) * unit_price tr)) /
                      of_int (sint (q + quantity tr)))
            else a)
         else (q - quantity tr, a))"
  by (simp add: inventory_step_def position_of_def map_of_std_map_put Let_def fmul_def fadd_def
      fdiv_def int_to_double_def split: option.splits)

lemma inventory_step_other:
  "key \<noteq> (warehouse_id tr, item_id tr) \<Longrightarrow>
   position_of (inventory_step rnd tr m) key = position_of m key"
  by (simp add: inventory_step_def position_of_def map_of_std_map_put Let_def)

lemma collect_loop_map_of:
  assumes "\<forall>w. map_of res w \<noteq> Some []"
  shows "map_of (foldl (\<lambda>result pair. inventory_collect pair result) res im) w =
     (let xs = records_at res w @
               map snd (filter (\<lambda>(k, r). fst k = w \<and> 0 < sint (quantity_inv r)) im)
      in if xs = [] then None else Some xs)"
  using assms
proof (induction im arbitrary: res)
  case Nil
  then show ?case
    by (cases "map_of res w") (auto simp: records_at_def)
next
  case (Cons p im)
  obtain k r where p: "p = (k, r)" by (cases p)
  have ne: "\<forall>w. map_of (inventory_collect p res) w \<noteq> Some []"
    using Cons.prems by (simp add: inventory_collect_def map_of_std_map_put)
  have rec: "records_at (inventory_collect p res) w =
      records_at res w @ (if fst k = w \<and> 0 < sint (quantity_inv r) then [r] else [])"
    by (auto simp: p inventory_collect_def records_at_def map_of_std_map_put)
  have "map_of (foldl (\<lambda>result pair. inventory_collect pair result) res (p # im)) w =
        map_of (foldl (\<lambda>result pair. inventory_collect pair result) (inventory_collect p res) im) w"
    by simp
  also have "\<dots> =
     (let xs = records_at (inventory_collect p res) w @
               map snd (filter (\<lambda>(k, r). fst k = w \<and> 0 < sint (quantity_inv r)) im)
      in if xs = [] then None else Some xs)"
    by (rule Cons.IH [OF ne])
  also have "\<dots> =
     (let xs = records_at res w @
               map snd (filter (\<lambda>(k, r). fst k = w \<and> 0 < sint (quantity_inv r)) (p # im))
      in if xs = [] then None else Some xs)"
    by (simp add: rec [unfolded p] p)
  finally show ?case .
qed

lemma calculateInventory_map_of:
  "map_of (calculateInventory rnd db mid) w =
     (let xs = map snd (filter (\<lambda>(k, r). fst k = w \<and> 0 < sint (quantity_inv r))
                  (inventory_loop rnd (getTransactions db mid)))
      in if xs = [] then None else Some xs)"
  by (simp add: calculateInventory_def collect_loop_map_of records_at_def)

lemma std_map_put_keys: "fst ` set (std_map_put k v m) = insert k (fst ` set m)"
proof (induction m)
  case Nil
  then show ?case by simp
next
  case (Cons p m)
  obtain k' v' where p: "p = (k', v')" by (cases p)
  show ?case
    using Cons by (simp add: p insert_commute)
qed

lemma std_map_put_sorted:
  "sorted_wrt (<) (map fst m) \<Longrightarrow> sorted_wrt (<) (map fst (std_map_put k v m))"
proof (induction m)
  case Nil
  then show ?case by simp
next
  case (Cons p m)
  obtain k' v' where p: "p = (k', v')" by (cases p)
  have "\<forall>x \<in> fst ` set (std_map_put k v m). k' < x" if "\<not> k < k'" "k \<noteq> k'"
    using that Cons.prems by (auto simp: p std_map_put_keys)
  then show ?case
    using Cons by (auto simp: p)
qed

lemma inventory_step_sorted:
  "sorted_wrt (<) (map fst m) \<Longrightarrow> sorted_wrt (<) (map fst (inventory_step rnd tr m))"
  by (simp add: inventory_step_def Let_def std_map_put_sorted)

lemma foldl_inventory_step_sorted:
  "sorted_wrt (<) (map fst m) \<Longrightarrow>
   sorted_wrt (<) (map fst (foldl (\<lambda>m tr. inventory_step rnd tr m) m trs))"
  by (induction trs arbitrary: m) (simp_all add: inventory_step_sorted)

lemma inventory_loop_sorted: "sorted_wrt (<) (map fst (inventory_loop rnd trs))"
  by (simp add: inventory_loop_def foldl_inventory_step_sorted)

lemma inventory_collect_sorted:
  "sorted_wrt (<) (map fst res) \<Longrightarrow> sorted_wrt (<) (map fst (inventory_collect p res))"
  by (simp add: inventory_collect_def std_map_put_sorted)

lemma foldl_inventory_collect_sorted:
  "sorted_wrt (<) (map fst res) \<Longrightarrow>
   sorted_wrt (<) (map fst (foldl (\<lambda>result pair. inventory_collect pair result) res im))"
  by (induction im arbitrary: res) (simp_all add: inventory_collect_sorted)

lemma calculateInventory_sorted: "sorted_wrt (<) (map fst (calculateInventory rnd db mid))"
  by (simp add: calculateInventory_def foldl_inventory_collect_sorted)

text \<open>
  The first loop is the fold of the step over all events in the order of the sequence, and
  it leaves at every key the record that the rule of the specification computes from the
  events of that key.
\<close>

lemma inventory_loop_snoc:
  "inventory_loop rnd (trs @ [tr]) = inventory_step rnd tr (inventory_loop rnd trs)"
  by (simp add: inventory_loop_def)

lemma map_of_inventory_step:
  "map_of (inventory_step rnd tr m) key =
     (if key = event_key tr then
        Some (let r = (case map_of m key of
                         None \<Rightarrow> \<lparr>item_id_inv = snd key, warehouse_id_inv = fst key,
                                  quantity_inv = 0, avg_price = 0\<rparr>
                       | Some r \<Rightarrow> r);
                  pos = position_update rnd (quantity_inv r, avg_price r) tr
              in r\<lparr>quantity_inv := fst pos, avg_price := snd pos\<rparr>)
      else map_of m key)"
  by (simp add: inventory_step_def event_key_def position_update_def map_of_std_map_put Let_def
      isInbound_def fmul_def fadd_def fdiv_def int_to_double_def split: option.splits)

lemma position_fold_snoc:
  "position_fold rnd (trs @ [tr]) key =
     (if event_key tr = key then position_update rnd (position_fold rnd trs key) tr
      else position_fold rnd trs key)"
  by (simp add: position_fold_def)

lemma position_fold_absent:
  "key \<notin> event_key ` set trs \<Longrightarrow> position_fold rnd trs key = (0, 0)"
proof -
  assume "key \<notin> event_key ` set trs"
  then have "filter (\<lambda>tr. event_key tr = key) trs = []"
    by (auto simp: filter_empty_conv)
  then show ?thesis
    by (simp add: position_fold_def)
qed

lemma map_of_inventory_loop:
  "map_of (inventory_loop rnd trs) key =
     (if key \<in> event_key ` set trs
      then Some \<lparr>item_id_inv = snd key, warehouse_id_inv = fst key,
                 quantity_inv = fst (position_fold rnd trs key),
                 avg_price = snd (position_fold rnd trs key)\<rparr>
      else None)"
proof (induction trs rule: rev_induct)
  case Nil
  then show ?case by (simp add: inventory_loop_def)
next
  case (snoc tr trs)
  show ?case
  proof (cases "key = event_key tr")
    case True
    show ?thesis
    proof (cases "key \<in> event_key ` set trs")
      case True
      then show ?thesis
        using snoc \<open>key = event_key tr\<close>
        by (simp add: inventory_loop_snoc map_of_inventory_step position_fold_snoc Let_def)
    next
      case False
      then show ?thesis
        using snoc \<open>key = event_key tr\<close> position_fold_absent [OF False, of rnd]
        by (simp add: inventory_loop_snoc map_of_inventory_step position_fold_snoc Let_def)
    qed
  next
    case False
    then show ?thesis
      using snoc
      by (auto simp: inventory_loop_snoc map_of_inventory_step position_fold_snoc)
  qed
qed

lemma assoc_list_by_keys:
  "distinct (map fst xs) \<Longrightarrow> map (\<lambda>k. (k, the (map_of xs k))) (map fst xs) = xs"
proof (induction xs)
  case Nil
  then show ?case by simp
next
  case (Cons p xs)
  obtain k v where p: "p = (k, v)" by (cases p)
  have ih: "map (\<lambda>k'. (k', the (map_of xs k'))) (map fst xs) = xs"
    using Cons by simp
  have eq: "map (\<lambda>k'. (k', the (map_of (p # xs) k'))) (map fst xs) =
      map (\<lambda>k'. (k', the (map_of xs k'))) (map fst xs)"
  proof (rule map_cong [OF refl])
    fix k'
    assume "k' \<in> set (map fst xs)"
    then have "k' \<noteq> k"
      using Cons.prems by (auto simp: p)
    then show "(k', the (map_of (p # xs) k')) = (k', the (map_of xs k'))"
      by (simp add: p)
  qed
  have "map (\<lambda>k'. (k', the (map_of (p # xs) k'))) (map fst (p # xs)) =
      p # map (\<lambda>k'. (k', the (map_of (p # xs) k'))) (map fst xs)"
    by (simp add: p)
  also have "\<dots> = p # xs"
    by (simp only: eq ih)
  finally show ?case .
qed

lemma inventory_loop_keys:
  "map fst (inventory_loop rnd trs) = sorted_list_of_set (event_key ` set trs)"
proof (rule sorted_distinct_set_unique)
  have strict: "sorted_wrt (<) (map fst (inventory_loop rnd trs))"
    by (rule inventory_loop_sorted)
  show "sorted (map fst (inventory_loop rnd trs))"
    using strict by (simp add: strict_sorted_iff)
  show "distinct (map fst (inventory_loop rnd trs))"
    using strict by (simp add: strict_sorted_iff)
  show "sorted (sorted_list_of_set (event_key ` set trs))"
    by simp
  show "distinct (sorted_list_of_set (event_key ` set trs))"
    by simp
  have "set (map fst (inventory_loop rnd trs)) = dom (map_of (inventory_loop rnd trs))"
    by (simp add: dom_map_of_conv_image_fst)
  also have "\<dots> = event_key ` set trs"
    by (auto simp: dom_def map_of_inventory_loop split: if_splits)
  finally show "set (map fst (inventory_loop rnd trs)) =
      set (sorted_list_of_set (event_key ` set trs))"
    by simp
qed

lemma inventory_loop_closed_form:
  "inventory_loop rnd trs =
     map (\<lambda>key. (key, \<lparr>item_id_inv = snd key, warehouse_id_inv = fst key,
                        quantity_inv = fst (position_fold rnd trs key),
                        avg_price = snd (position_fold rnd trs key)\<rparr>))
       (sorted_list_of_set (event_key ` set trs))"
proof -
  let ?L = "inventory_loop rnd trs"
  have "distinct (map fst ?L)"
    using inventory_loop_sorted [of rnd trs] by (simp add: strict_sorted_iff)
  then have "map (\<lambda>k. (k, the (map_of ?L k))) (map fst ?L) = ?L"
    by (rule assoc_list_by_keys)
  then have "?L = map (\<lambda>k. (k, the (map_of ?L k))) (sorted_list_of_set (event_key ` set trs))"
    by (simp only: inventory_loop_keys)
  moreover have "map (\<lambda>k. (k, the (map_of ?L k))) (sorted_list_of_set (event_key ` set trs)) =
      map (\<lambda>key. (key, \<lparr>item_id_inv = snd key, warehouse_id_inv = fst key,
                        quantity_inv = fst (position_fold rnd trs key),
                        avg_price = snd (position_fold rnd trs key)\<rparr>))
        (sorted_list_of_set (event_key ` set trs))"
    by (rule map_cong [OF refl]) (simp add: map_of_inventory_loop)
  ultimately show ?thesis
    by simp
qed

lemma calculateInventory_spec:
  "records_at (calculateInventory rnd db mid) w = inventory_spec rnd (getTransactions db mid) w"
proof -
  let ?trs = "getTransactions db mid"
  have "records_at (calculateInventory rnd db mid) w =
      map snd (filter (\<lambda>(k, r). fst k = w \<and> 0 < sint (quantity_inv r)) (inventory_loop rnd ?trs))"
    by (simp add: records_at_def calculateInventory_map_of Let_def)
  also have "\<dots> = inventory_spec rnd ?trs w"
    unfolding inventory_loop_closed_form [of rnd ?trs] inventory_spec_def
    by (simp add: filter_map comp_def)
  finally show ?thesis .
qed

lemma inventory_two_inbound:
  assumes "rnd 0 = 0" and "rnd 2 = 2" and "rnd 3 = 3" and "rnd 20 = 20" and "rnd 40 = 40"
    and "rnd 60 = 60"
    and "type a = ''in''" and "type b = ''in''" and "quantity a = 10" and "quantity b = 10"
    and "unit_price a = 2" and "unit_price b = 4"
    and "item_id b = item_id a" and "warehouse_id b = warehouse_id a"
  shows "inventory_loop rnd [a, b] =
     [((warehouse_id a, item_id a),
       \<lparr>item_id_inv = item_id a, warehouse_id_inv = warehouse_id a, quantity_inv = 20,
        avg_price = 3\<rparr>)]"
  using assms
  by (simp add: inventory_loop_def inventory_step_def isInbound_def fmul_def fadd_def fdiv_def
      int_to_double_def)

lemma inventory_then_outbound:
  assumes "rnd 0 = 0" and "rnd 2 = 2" and "rnd 3 = 3" and "rnd 20 = 20" and "rnd 40 = 40"
    and "rnd 60 = 60"
    and "type a = ''in''" and "type b = ''in''" and "quantity a = 10" and "quantity b = 10"
    and "unit_price a = 2" and "unit_price b = 4"
    and "item_id b = item_id a" and "warehouse_id b = warehouse_id a"
    and "type c = ''out''" and "quantity c = 25"
    and "item_id c = item_id a" and "warehouse_id c = warehouse_id a"
  shows "inventory_loop rnd [a, b, c] =
     [((warehouse_id a, item_id a),
       \<lparr>item_id_inv = item_id a, warehouse_id_inv = warehouse_id a, quantity_inv = - 5,
        avg_price = 3\<rparr>)]"
  using assms
  by (simp add: inventory_loop_def inventory_step_def isInbound_def fmul_def fadd_def fdiv_def
      int_to_double_def)

text \<open>
  C8. \<open>calculateInventory\<close> folds the published events by (warehouse, item): its first loop
  starts from the empty map and applies the step to every event in the order of the
  sequence. For the position of its event the step does this: an inbound event adds its
  quantity and sets the average price to
  (old quantity * old average + quantity * unit price) / new quantity, computed in
  \<^verbatim>\<open>double\<close> with a rounding after each operation, when the new quantity is positive, and
  leaves the average otherwise; an outbound event subtracts its quantity and leaves the
  price; no other position changes. So after the loop the map holds a record exactly for
  the keys of the events, and the record of a key is what the rule of the specification
  gives when folded over the events of that key in their order. The keys of the inventory
  map are strictly ascending, and the result holds for each warehouse exactly the records
  of its positions with a positive quantity, in key order, no entry for a warehouse without
  such a position, and its warehouses in ascending order: for every warehouse the result
  is the inventory that the specification describes. For two inbound events of one
  item with quantity 10 at prices 2.00 and 4.00 the result is the one position with
  quantity 20 and average price 3.00; after an outbound event of 25 the result is empty
  (for every rounding that leaves the numbers 0, 2, 3, 20, 40 and 60 as they are, as the
  rounding of \<^verbatim>\<open>double\<close> does).
\<close>

theorem calculateInventory_weighted_average:
  "inventory_loop rnd [] = [] \<and>
   inventory_loop rnd (trs @ [tr]) = inventory_step rnd tr (inventory_loop rnd trs) \<and>
   position_of (inventory_step rnd tr m) (warehouse_id tr, item_id tr) =
     (let (q, a) = position_of m (warehouse_id tr, item_id tr)
      in if isInbound tr then
           (q + quantity tr,
            if 0 < sint (q + quantity tr)
            then rnd (rnd (rnd (of_int (sint q) * a) +
                           rnd (of_int (sint (quantity tr)) * unit_price tr)) /
                      of_int (sint (q + quantity tr)))
            else a)
         else (q - quantity tr, a)) \<and>
   (key \<noteq> (warehouse_id tr, item_id tr) \<longrightarrow>
      position_of (inventory_step rnd tr m) key = position_of m key) \<and>
   map_of (inventory_loop rnd trs) key =
     (if key \<in> event_key ` set trs
      then Some \<lparr>item_id_inv = snd key, warehouse_id_inv = fst key,
                 quantity_inv = fst (position_fold rnd trs key),
                 avg_price = snd (position_fold rnd trs key)\<rparr>
      else None) \<and>
   sorted_wrt (<) (map fst (inventory_loop rnd trs)) \<and>
   map_of (calculateInventory rnd db mid) w =
     (let xs = map snd (filter (\<lambda>(k, r). fst k = w \<and> 0 < sint (quantity_inv r))
                  (inventory_loop rnd (getTransactions db mid)))
      in if xs = [] then None else Some xs) \<and>
   sorted_wrt (<) (map fst (calculateInventory rnd db mid)) \<and>
   records_at (calculateInventory rnd db mid) w =
     inventory_spec rnd (getTransactions db mid) w \<and>
   (rnd 0 = 0 \<and> rnd 2 = 2 \<and> rnd 3 = 3 \<and> rnd 20 = 20 \<and> rnd 40 = 40 \<and> rnd 60 = 60 \<and>
    type a = ''in'' \<and> type b = ''in'' \<and> quantity a = 10 \<and> quantity b = 10 \<and>
    unit_price a = 2 \<and> unit_price b = 4 \<and> item_id b = item_id a \<and>
    warehouse_id b = warehouse_id a \<longrightarrow>
      (getTransactions db mid = [a, b] \<longrightarrow>
         calculateInventory rnd db mid =
           [(warehouse_id a,
             [\<lparr>item_id_inv = item_id a, warehouse_id_inv = warehouse_id a, quantity_inv = 20,
               avg_price = 3\<rparr>])]) \<and>
      (type c = ''out'' \<and> quantity c = 25 \<and> item_id c = item_id a \<and>
       warehouse_id c = warehouse_id a \<and> getTransactions db mid = [a, b, c] \<longrightarrow>
         calculateInventory rnd db mid = []))"
proof -
  have scen1: "calculateInventory rnd db mid =
           [(warehouse_id a,
             [\<lparr>item_id_inv = item_id a, warehouse_id_inv = warehouse_id a, quantity_inv = 20,
               avg_price = 3\<rparr>])]"
    if "rnd 0 = 0" "rnd 2 = 2" "rnd 3 = 3" "rnd 20 = 20" "rnd 40 = 40" "rnd 60 = 60"
      "type a = ''in''" "type b = ''in''" "quantity a = 10" "quantity b = 10"
      "unit_price a = 2" "unit_price b = 4" "item_id b = item_id a"
      "warehouse_id b = warehouse_id a" "getTransactions db mid = [a, b]"
    using that(15) inventory_two_inbound [OF that(1-14)]
    by (simp add: calculateInventory_def inventory_collect_def)
  have scen2: "calculateInventory rnd db mid = []"
    if "rnd 0 = 0" "rnd 2 = 2" "rnd 3 = 3" "rnd 20 = 20" "rnd 40 = 40" "rnd 60 = 60"
      "type a = ''in''" "type b = ''in''" "quantity a = 10" "quantity b = 10"
      "unit_price a = 2" "unit_price b = 4" "item_id b = item_id a"
      "warehouse_id b = warehouse_id a" "type c = ''out''" "quantity c = 25"
      "item_id c = item_id a" "warehouse_id c = warehouse_id a"
      "getTransactions db mid = [a, b, c]"
    using that(19) inventory_then_outbound [OF that(1-18)]
    by (simp add: calculateInventory_def inventory_collect_def)
  have nil: "inventory_loop rnd [] = []"
    by (simp add: inventory_loop_def)
  show ?thesis
    using nil inventory_loop_snoc [of rnd trs tr]
      inventory_step_position [of rnd tr m] inventory_step_other [of key tr rnd m]
      map_of_inventory_loop [of rnd trs key] inventory_loop_sorted [of rnd trs]
      calculateInventory_map_of [of rnd db mid w] calculateInventory_sorted [of rnd db mid]
      calculateInventory_spec [of rnd db mid w] scen1 scen2
    by blast
qed

lemma serialize_event_B:
  "serializeTransaction example_time ''m1'' event_B =
     ''2024-01-15T10:30:00.007Z|m1|T2|I1||in|10|4.00||||||||''"
  by (simp add: serializeTransaction_def getCurrentTimestamp_example event_B_def
      TransactionRecord_new_def ostream_int_def show_int_def show_nat.simps ostream_fixed2_def
      round_half_even_def digit_char_def)

lemma serialize_event_C:
  "serializeTransaction example_time ''m1'' event_C =
     ''2024-01-15T10:30:00.007Z|m1|T3|I1||out|25|0.00||||||||''"
  by (simp add: serializeTransaction_def getCurrentTimestamp_example event_C_def
      TransactionRecord_new_def ostream_int_def show_int_def show_nat.simps ostream_fixed2_def
      round_half_even_def digit_char_def)

lemma store_A:
  "store_A =
     \<lparr>managers = [''m1'' \<mapsto> \<lparr>transactions = [event_A], count = 1\<rparr>],
      persistence =
        Some \<lparr>wal_stream_open = True,
              data_dir_files =
                [(''current.wal'',
                  ''2024-01-15T10:30:00.007Z|m1|T1|I1||in|10|2.00||||||||'' @ [CHR 0x0A])],
              wal_size_limit = 104857600\<rparr>,
      persistence_enabled = True\<rparr>"
  by (simp add: store_A_def append_event_A)

lemma store_AB:
  "store_AB =
     \<lparr>managers = [''m1'' \<mapsto> \<lparr>transactions = [event_A, event_B], count = 2\<rparr>],
      persistence =
        Some \<lparr>wal_stream_open = True,
              data_dir_files =
                [(''current.wal'',
                  ''2024-01-15T10:30:00.007Z|m1|T1|I1||in|10|2.00||||||||'' @ [CHR 0x0A] @
                  ''2024-01-15T10:30:00.007Z|m1|T2|I1||in|10|4.00||||||||'' @ [CHR 0x0A])],
              wal_size_limit = 104857600\<rparr>,
      persistence_enabled = True\<rparr>"
proof -
  have v: "trans_id event_B = ''T2''" "item_id event_B \<noteq> []" "type event_B = ''in''"
    "0 < sint (quantity event_B)" "trans_id event_A = ''T1''"
    by (simp_all add: event_A_def event_B_def)
  show ?thesis
    using v
    by (simp add: store_AB_def store_A appendTransaction_def is_duplicate_def writeToWAL_def
        example_env_def serialize_event_B shouldCreateSnapshot_def file_size_def
        memory_update_def) (simp add: numeral_2_eq_2)
qed

lemma store_ABC_managers:
  "managers store_ABC =
     [''m1'' \<mapsto> \<lparr>transactions = [event_A, event_B, event_C], count = 3\<rparr>]"
proof -
  have v: "trans_id event_C = ''T3''" "item_id event_C \<noteq> []" "type event_C = ''out''"
    "0 < sint (quantity event_C)" "trans_id event_A = ''T1''" "trans_id event_B = ''T2''"
    by (simp_all add: event_A_def event_B_def event_C_def)
  show ?thesis
    using v
    by (simp add: store_ABC_def store_AB appendTransaction_def is_duplicate_def writeToWAL_def
        example_env_def serialize_event_C shouldCreateSnapshot_def file_size_def
        memory_update_def)
qed


text \<open>
  The Stores with a fourth event and with a price that is not a multiple of a power of two,
  and the roundings of the binary64 format that their inventories need.
\<close>

lemma broken_db:
  "MemoryDatabase_new broken_disk =
     \<lparr>managers = Map.empty, persistence = None, persistence_enabled = False\<rparr>"
  by (simp add: MemoryDatabase_new_def PersistenceManager_new_def broken_disk_def)

lemma store_ABCD_managers:
  "managers store_ABCD =
     [''m1'' \<mapsto> \<lparr>transactions = [event_A, event_B, event_C, event_D], count = 4\<rparr>]"
proof -
  have v: "trans_id event_A = ''T1''" "trans_id event_B = ''T2''" "trans_id event_C = ''T3''"
    "trans_id event_D = ''T4''" "item_id event_A = ''I1''" "item_id event_B = ''I1''"
    "item_id event_C = ''I1''" "item_id event_D = ''I1''" "type event_A = ''in''"
    "type event_B = ''in''" "type event_C = ''out''" "type event_D = ''in''"
    "quantity event_A = 10" "quantity event_B = 10" "quantity event_C = 25"
    "quantity event_D = 100"
    by (simp_all add: event_A_def event_B_def event_C_def event_D_def)
  show ?thesis
    unfolding store_ABCD_def broken_db using v
    by (simp add: appendTransaction_def is_duplicate_def memory_update_def)
      (simp add: eval_nat_numeral)
qed

lemma store_tenth_managers:
  "managers store_tenth = [''m1'' \<mapsto> \<lparr>transactions = [event_tenth], count = 1\<rparr>]"
proof -
  have v: "trans_id event_tenth = ''T1''" "item_id event_tenth = ''I2''"
    "type event_tenth = ''in''" "quantity event_tenth = 3"
    by (simp_all add: event_tenth_def)
  show ?thesis
    unfolding store_tenth_def broken_db using v
    by (simp add: appendTransaction_def is_duplicate_def memory_update_def)
qed

lemma round_binary64_values:
  "round_binary64 0 = 0" "round_binary64 2 = 2" "round_binary64 3 = 3"
  "round_binary64 20 = 20" "round_binary64 40 = 40" "round_binary64 60 = 60"
  "round_binary64 (- 15) = - 15" "round_binary64 500 = 500" "round_binary64 485 = 485"
  "round_binary64 (97 / 19) = 5748015313880765 / 1125899906842624"
  by code_simp+

lemma round_binary64_tenth:
  "round_binary64 (1 / 10) = 3602879701896397 / 36028797018963968"
  "round_binary64 (10808639105689191 / 36028797018963968) =
     1351079888211149 / 4503599627370496"
  "round_binary64 (1351079888211149 / 4503599627370496) = 1351079888211149 / 4503599627370496"
  "round_binary64 (1351079888211149 / 13510798882111488) =
     7205759403792795 / 72057594037927936"
  by code_simp+

lemma inventory_ABCD:
  "inventory_loop round_binary64 [event_A, event_B, event_C, event_D] =
     [(([], ''I1''),
       \<lparr>item_id_inv = ''I1'', warehouse_id_inv = [], quantity_inv = 95,
        avg_price = 5748015313880765 / 1125899906842624\<rparr>)]"
  by (simp add: inventory_loop_def inventory_step_def event_A_def event_B_def event_C_def
      event_D_def TransactionRecord_new_def isInbound_def fmul_def fadd_def fdiv_def
      int_to_double_def round_binary64_values)

lemma inventory_tenth:
  "inventory_loop round_binary64 [event_tenth] =
     [(([], ''I2''),
       \<lparr>item_id_inv = ''I2'', warehouse_id_inv = [], quantity_inv = 3,
        avg_price = 7205759403792795 / 72057594037927936\<rparr>)]"
  by (simp add: inventory_loop_def inventory_step_def event_tenth_def
      TransactionRecord_new_def isInbound_def fmul_def fadd_def fdiv_def
      int_to_double_def round_binary64_values round_binary64_tenth)


theorem calculateInventory_witness:
  "calculateInventory round_binary64 store_AB ''m1'' =
     [([], [\<lparr>item_id_inv = ''I1'', warehouse_id_inv = [], quantity_inv = 20, avg_price = 3\<rparr>])] \<and>
   calculateInventory round_binary64 store_ABC ''m1'' = [] \<and>
   map_of (calculateInventory round_binary64 store_ABCD ''m1'') [] =
     Some [\<lparr>item_id_inv = ''I1'', warehouse_id_inv = [], quantity_inv = 95,
            avg_price = 5748015313880765 / 1125899906842624\<rparr>] \<and>
   position_fold round_binary64 [event_A, event_B, event_C, event_D] ([], ''I1'') =
     (95, 5748015313880765 / 1125899906842624) \<and>
   inventory_spec round_binary64 [event_A, event_B, event_C, event_D] [] =
     [\<lparr>item_id_inv = ''I1'', warehouse_id_inv = [], quantity_inv = 95,
       avg_price = 5748015313880765 / 1125899906842624\<rparr>] \<and>
   map_of (calculateInventory round_binary64 store_tenth ''m1'') [] =
     Some [\<lparr>item_id_inv = ''I2'', warehouse_id_inv = [], quantity_inv = 3,
            avg_price = 7205759403792795 / 72057594037927936\<rparr>] \<and>
   position_of (inventory_step round_binary64 event_tenth []) ([], ''I1'') = (0, 0)"
proof -
  have ev: "type event_A = ''in''" "type event_B = ''in''" "quantity event_A = 10"
    "quantity event_B = 10" "unit_price event_A = 2" "unit_price event_B = 4"
    "item_id event_B = item_id event_A" "warehouse_id event_B = warehouse_id event_A"
    "type event_C = ''out''" "quantity event_C = 25" "item_id event_C = item_id event_A"
    "warehouse_id event_C = warehouse_id event_A" "item_id event_A = ''I1''"
    "warehouse_id event_A = []"
    by (simp_all add: event_A_def event_B_def event_C_def TransactionRecord_new_def)
  have keys: "event_key event_A = ([], ''I1'')" "event_key event_B = ([], ''I1'')"
    "event_key event_C = ([], ''I1'')" "event_key event_D = ([], ''I1'')"
    "warehouse_id event_tenth = []" "item_id event_tenth = ''I2''"
    by (simp_all add: event_key_def event_A_def event_B_def event_C_def event_D_def
        event_tenth_def TransactionRecord_new_def)
  have g2: "getTransactions store_AB ''m1'' = [event_A, event_B]"
    by (simp add: store_AB getTransactions_def)
  have g3: "getTransactions store_ABC ''m1'' = [event_A, event_B, event_C]"
    by (simp add: store_ABC_managers getTransactions_def)
  have g4: "getTransactions store_ABCD ''m1'' = [event_A, event_B, event_C, event_D]"
    by (simp add: store_ABCD_managers getTransactions_def)
  have g1: "getTransactions store_tenth ''m1'' = [event_tenth]"
    by (simp add: store_tenth_managers getTransactions_def)
  note thm2 = calculateInventory_weighted_average
    [where rnd = round_binary64 and db = store_AB and mid = "''m1''" and a = event_A
       and b = event_B and c = event_C]
  note thm3 = calculateInventory_weighted_average
    [where rnd = round_binary64 and db = store_ABC and mid = "''m1''" and a = event_A
       and b = event_B and c = event_C]
  note thm4 = calculateInventory_weighted_average
    [where rnd = round_binary64 and db = store_ABCD and mid = "''m1''" and w = "[]"
       and trs = "[event_A, event_B, event_C, event_D]" and key = "([], ''I1'')"]
  note thm1 = calculateInventory_weighted_average
    [where rnd = round_binary64 and db = store_tenth and mid = "''m1''" and w = "[]"
       and tr = event_tenth and m = "[]" and key = "([], ''I1'')"]
  have c1: "calculateInventory round_binary64 store_AB ''m1'' =
     [([], [\<lparr>item_id_inv = ''I1'', warehouse_id_inv = [], quantity_inv = 20, avg_price = 3\<rparr>])]"
    using thm2 ev g2 by (simp add: round_binary64_values)
  have c2: "calculateInventory round_binary64 store_ABC ''m1'' = []"
    using thm3 ev g3 by (simp add: round_binary64_values)
  have c3: "map_of (calculateInventory round_binary64 store_ABCD ''m1'') [] =
     Some [\<lparr>item_id_inv = ''I1'', warehouse_id_inv = [], quantity_inv = 95,
            avg_price = 5748015313880765 / 1125899906842624\<rparr>]"
    using thm4 by (simp add: g4 inventory_ABCD)
  have c4: "position_fold round_binary64 [event_A, event_B, event_C, event_D] ([], ''I1'') =
     (95, 5748015313880765 / 1125899906842624)"
    using thm4 by (simp add: inventory_ABCD keys prod_eq_iff)
  have c7: "inventory_spec round_binary64 [event_A, event_B, event_C, event_D] [] =
     [\<lparr>item_id_inv = ''I1'', warehouse_id_inv = [], quantity_inv = 95,
       avg_price = 5748015313880765 / 1125899906842624\<rparr>]"
    using thm4 c3 by (simp add: g4 records_at_def)
  have c5: "map_of (calculateInventory round_binary64 store_tenth ''m1'') [] =
     Some [\<lparr>item_id_inv = ''I2'', warehouse_id_inv = [], quantity_inv = 3,
            avg_price = 7205759403792795 / 72057594037927936\<rparr>]"
    using thm1 by (simp add: g1 inventory_tenth)
  have c6: "position_of (inventory_step round_binary64 event_tenth []) ([], ''I1'') = (0, 0)"
    using thm1 by (simp add: keys position_of_def)
  show ?thesis
    using c1 c2 c3 c4 c5 c6 c7 by simp
qed

subsection \<open>The item summaries\<close>










subsection \<open>The WAL line format\<close>



























subsection \<open>Recovery from the WAL\<close>

lemma recover_lines_append:
  "recover_lines (xs @ ys) data = recover_lines ys (recover_lines xs data)"
  by (induction xs arbitrary: data) (auto split: option.splits)

lemma recover_files_lines:
  "recover_files files wal_files data =
     recover_lines
       (concat (map (\<lambda>wal_file. case map_of files wal_file of
                                   None \<Rightarrow> []
                                 | Some content \<Rightarrow> getline_all (CHR 0x0A) content)
                  wal_files)) data"
  by (induction wal_files arbitrary: data) (auto simp: recover_lines_append split: option.splits)

lemma recoverFromWAL_lines: "recoverFromWAL pm = recover_lines (wal_lines pm) []"
  by (simp add: recoverFromWAL_def wal_lines_def recover_files_lines)

lemma recover_lines_skip:
  "deserializeTransaction bad TransactionRecord_new = None \<Longrightarrow>
   recover_lines (pre @ [bad] @ post) data = recover_lines (pre @ post) data"
  by (simp add: recover_lines_append)

lemma map_of_push_back_for:
  "map_of (push_back_for m tr data) mid =
     (if mid = m then Some ((case map_of data m of None \<Rightarrow> [] | Some v \<Rightarrow> v) @ [tr])
      else map_of data mid)"
  by (induction data) auto

lemma tenant_sequence_push_back_for:
  "tenant_sequence (push_back_for m tr data) mid =
     (if mid = m then tenant_sequence data mid @ [tr] else tenant_sequence data mid)"
  by (simp add: tenant_sequence_def map_of_push_back_for)

lemma deserialize_empty_line: "deserializeTransaction [] tr0 = None"
  by (simp add: deserializeTransaction_def getline_all_def)

lemma parsed_events_Cons:
  "parsed_events mid (line # lines) =
     (case deserializeTransaction line TransactionRecord_new of
        None \<Rightarrow> parsed_events mid lines
      | Some (m, tr) \<Rightarrow> if m = mid then tr # parsed_events mid lines else parsed_events mid lines)"
  by (simp add: parsed_events_def map_filter_simps split: option.splits)

lemma parsed_events_append:
  "parsed_events mid (xs @ ys) = parsed_events mid xs @ parsed_events mid ys"
proof (induction xs)
  case Nil
  then show ?case by (simp add: parsed_events_def map_filter_simps)
next
  case (Cons x xs)
  then show ?case
    by (simp add: parsed_events_Cons split: option.splits)
qed

lemma tenant_sequence_recover_lines:
  "tenant_sequence (recover_lines lines data) mid =
     tenant_sequence data mid @ parsed_events mid lines"
proof (induction lines arbitrary: data)
  case Nil
  then show ?case by (simp add: parsed_events_def map_filter_simps)
next
  case (Cons line lines)
  show ?case
  proof (cases "deserializeTransaction line TransactionRecord_new")
    case None
    then show ?thesis
      using Cons.IH by (simp add: parsed_events_Cons)
  next
    case (Some r)
    obtain m tr where r: "r = (m, tr)" by (cases r)
    have ne: "line \<noteq> []"
      using Some deserialize_empty_line by auto
    show ?thesis
      using Cons.IH [of "push_back_for m tr data"] Some ne
      by (simp add: r parsed_events_Cons tenant_sequence_push_back_for)
  qed
qed

text \<open>
  C7. A line of the WAL that does not split into exactly 16 fields is skipped by
  \<open>recoverFromWAL\<close> and nothing else happens: the recovered data is that of the lines
  before and after it, and the sequence of every tenant is made of the events of the
  well-formed lines before it followed by those of the well-formed lines after it, in
  the order of the file.
\<close>

theorem malformed_wal_line_skipped:
  assumes "wal_lines pm = pre @ [bad] @ post"
    and "length (getline_all CHR ''|'' bad) \<noteq> 16"
  shows "recoverFromWAL pm = recover_lines (pre @ post) [] \<and>
         tenant_sequence (recoverFromWAL pm) mid = parsed_events mid pre @ parsed_events mid post"
proof -
  have none: "deserializeTransaction bad TransactionRecord_new = None"
    using assms(2) by (simp add: deserializeTransaction_def)
  have "recoverFromWAL pm = recover_lines (pre @ post) []"
    unfolding recoverFromWAL_lines assms(1) using none by (rule recover_lines_skip)
  moreover have "tenant_sequence [] mid = []"
    by (simp add: tenant_sequence_def)
  ultimately show ?thesis
    by (simp add: tenant_sequence_recover_lines parsed_events_append)
qed

lemma torn_pm:
  "PersistenceManager_new torn_disk =
     Some \<lparr>wal_stream_open = True, data_dir_files = disk_files torn_disk,
           wal_size_limit = 104857600\<rparr>"
  by (simp add: PersistenceManager_new_def torn_disk_def)

lemma torn_wal_lines:
  "wal_lines \<lparr>wal_stream_open = True, data_dir_files = disk_files torn_disk,
              wal_size_limit = 104857600\<rparr> =
     [''2024-01-15T10:30:00.007Z|m1|T1|I1||in|10|2.00||||||||n''] @
     [''2024-01-15T10:30:00.008Z|m1|T2|I1''] @
     [''2024-01-15T10:30:00.009Z|m1|T3|I1||in|10|2.00||||||||n'']"
  by (simp add: wal_lines_def getWALFiles_def ends_with_def torn_disk_def getline_all_def)

lemma deserialize_line_T3:
  "deserializeTransaction ''2024-01-15T10:30:00.009Z|m1|T3|I1||in|10|2.00||||||||n''
     TransactionRecord_new =
   Some (''m1'', event_A\<lparr>trans_id := ''T3'', note := ''n'',
            timestamp := ''2024-01-15T10:30:00.009Z''\<rparr>)"
  by (simp add: deserializeTransaction_def getline_all_def stoi_def stod_def isspace_def
      isdigit_def digits_val_def digit_val_def read_exponent_def event_A_def
      TransactionRecord_new_def)

theorem malformed_wal_line_witness:
  "recoverFromWAL \<lparr>wal_stream_open = True, data_dir_files = disk_files torn_disk,
                   wal_size_limit = 104857600\<rparr> =
     [(''m1'', [event_A\<lparr>note := ''n'', timestamp := ''2024-01-15T10:30:00.007Z''\<rparr>,
                event_A\<lparr>trans_id := ''T3'', note := ''n'',
                  timestamp := ''2024-01-15T10:30:00.009Z''\<rparr>])]"
proof -
  have bad: "length (getline_all CHR ''|'' ''2024-01-15T10:30:00.008Z|m1|T2|I1'') \<noteq> 16"
    by (simp add: getline_all_def)
  from malformed_wal_line_skipped [OF torn_wal_lines bad] show ?thesis
    by (simp add: deserialize_line_m1 deserialize_line_T3)
qed

subsection \<open>Recovery fidelity\<close>






lemma append_to_file_more:
  "name \<in> set (map fst files) \<Longrightarrow>
   append_to_file name t (files @ added) = append_to_file name t files @ added"
  by (induction files) force+






















lemma event_fields_valid_stamped [simp]:
  "event_fields_valid (tr\<lparr>timestamp := ts, manager_id := x\<rparr>) = event_fields_valid tr"
  by (simp add: event_fields_valid_def)





































lemma deserialize_line_noted_B:
  "deserializeTransaction
     ''2024-01-15T10:30:00.007Z|m1|T2|I1||in|10|4.00||||||||second delivery''
     TransactionRecord_new =
   Some (''m1'', event_noted_B\<lparr>timestamp := ''2024-01-15T10:30:00.007Z''\<rparr>)"
  by (simp add: deserializeTransaction_def getline_all_def stoi_def stod_def isspace_def
      isdigit_def digits_val_def digit_val_def read_exponent_def event_noted_B_def event_B_def
      TransactionRecord_new_def)























end
